theory Spec2Isabelle
  imports Complex_Main
begin

section \<open>JavaScript values\<close>

text \<open>
  The tool handler of \<^verbatim>\<open>src/index.ts\<close> receives a tool name and a loosely typed
  argument bag, and reads JSON bodies sent by the backend.  Both are JSON data, so the
  model works on JSON values with the coercions that the source applies to them
  (truthiness, \<^verbatim>\<open>||\<close>, \<^verbatim>\<open>===\<close> against a literal, template-literal interpolation,
  \<^verbatim>\<open>Math.min\<close>, \<^verbatim>\<open>encodeURIComponent\<close>, \<^verbatim>\<open>new Date\<close>, property reads, \<^verbatim>\<open>.map\<close>, \<^verbatim>\<open>.join\<close>),
  each with the exceptions it can raise on such data.

  A number is a finite value, \<^verbatim>\<open>NaN\<close> or an infinity.  Finite doubles are embedded in the
  rationals; the source only compares numbers and takes minima, which is exact there.
  A string is the list of bytes of its UTF-8 encoding; a lone surrogate (which JSON can
  carry, as in \<^verbatim>\<open>"\ud800"\<close>) is written with the three bytes \<^verbatim>\<open>ED A0..BF xx\<close> of its
  generalised encoding, which no well-formed UTF-8 text contains.  An object is the list
  of its members; a key is looked up with \<^const>\<open>map_of\<close>, so the first pair of a key
  counts.
\<close>

datatype jsnum = Fin rat | NaN | PosInf | NegInf

datatype jsval =
    JUndefined
  | JNull
  | JBool bool
  | JNum jsnum
  | JStr string
  | JArr "jsval list"
  | JObj "(string \<times> jsval) list"

text \<open>
  An exception that the handler's \<^verbatim>\<open>try\<close> block can see:
  \<^item> a promise of \<^verbatim>\<open>fetch\<close>, \<^verbatim>\<open>response.text()\<close> or \<^verbatim>\<open>response.json()\<close> rejected with an error
    carrying a message;
  \<^item> a \<^verbatim>\<open>TypeError\<close> raised by the engine when a property is read from \<^verbatim>\<open>null\<close> or
    \<^verbatim>\<open>undefined\<close>, when a missing method is called, or when an object cannot be converted
    to a primitive value (the value and the property name are kept);
  \<^item> the \<^verbatim>\<open>URIError\<close> of \<^verbatim>\<open>encodeURIComponent\<close>.
\<close>

datatype js_error = Rejected string | TypeError jsval string | URIError

section \<open>Process environment and engine built-ins\<close>

text \<open>
  \<^verbatim>\<open>CURAQ_API_URL\<close> and \<^verbatim>\<open>CURAQ_MCP_TOKEN\<close> are read once at start-up (lines 12-13).
  The remaining fields are built-ins of the JavaScript engine whose results the source
  interpolates but does not compute itself: the conversion of a string to a number
  (inside \<^verbatim>\<open>Math.min\<close>), the printing of a number that is not a safe integer,
  \<^verbatim>\<open>JSON.stringify\<close>, the two locale-dependent renderings of a \<^verbatim>\<open>Date\<close> built from a
  primitive value (lines 373 and 381), and the message texts of the engine's errors.
\<close>

record env =
  CURAQ_API_URL :: string
  CURAQ_MCP_TOKEN :: string
  string_to_number :: "string \<Rightarrow> jsnum"
  print_number :: "rat \<Rightarrow> string"
  json_stringify :: "jsval \<Rightarrow> string"
  to_locale_date_string :: "jsval \<Rightarrow> string"
  to_locale_string :: "jsval \<Rightarrow> string"
  type_error_message :: "jsval \<Rightarrow> string \<Rightarrow> string"
  uri_error_message :: string

section \<open>Results that may throw\<close>

definition and_then :: "js_error + 'a \<Rightarrow> ('a \<Rightarrow> js_error + 'b) \<Rightarrow> js_error + 'b" where
  "and_then r k = (case r of Inl e \<Rightarrow> Inl e | Inr x \<Rightarrow> k x)"

text \<open>
  A template literal: its substitutions are evaluated from left to right, and the first
  one that throws aborts the whole literal.
\<close>

fun template :: "(js_error + string) list \<Rightarrow> js_error + string" where
  "template [] = Inr []"
| "template (Inl e # ps) = Inl e"
| "template (Inr s # ps) = and_then (template ps) (\<lambda>t. Inr (s @ t))"

text \<open>The calls of a \<^verbatim>\<open>.map\<close> callback, stopped at the first one that throws.\<close>

fun collect :: "(js_error + 'a) list \<Rightarrow> js_error + 'a list" where
  "collect [] = Inr []"
| "collect (Inl e # rs) = Inl e"
| "collect (Inr x # rs) = and_then (collect rs) (\<lambda>xs. Inr (x # xs))"

text \<open>\<^verbatim>\<open>error instanceof Error ? error.message : String(error)\<close> (line 581)\<close>

fun error_message :: "env \<Rightarrow> js_error \<Rightarrow> string" where
  "error_message env (Rejected m) = m"
| "error_message env (TypeError v k) = type_error_message env v k"
| "error_message env URIError = uri_error_message env"

section \<open>Coercions\<close>

text \<open>Truthiness, as tested by \<^verbatim>\<open>!x\<close>, \<^verbatim>\<open>x || y\<close> and \<^verbatim>\<open>x ? a : b\<close>.\<close>

fun truthy :: "jsval \<Rightarrow> bool" where
  "truthy JUndefined = False"
| "truthy JNull = False"
| "truthy (JBool b) = b"
| "truthy (JNum n) = (n \<noteq> Fin 0 \<and> n \<noteq> NaN)"
| "truthy (JStr s) = (s \<noteq> [])"
| "truthy (JArr xs) = True"
| "truthy (JObj kv) = True"

text \<open>\<^verbatim>\<open>a || b\<close>\<close>

definition js_or :: "jsval \<Rightarrow> jsval \<Rightarrow> jsval" where
  "js_or a b = (if truthy a then a else b)"

text \<open>Decimal digits of a natural number.\<close>

definition digit :: "nat \<Rightarrow> char" where
  "digit n = ''0123456789'' ! (n mod 10)"

function string_of_nat :: "nat \<Rightarrow> string" where
  "string_of_nat n =
     (if n < 10 then [digit n]
      else string_of_nat (n div 10) @ [digit n])"
  by pat_completeness auto
termination
  by (relation "measure id") auto

declare string_of_nat.simps [simp del]

text \<open>
  \<^verbatim>\<open>Number::toString\<close>: a safe integer (at most \<open>2^53 - 1\<close> in absolute value) prints
  as its decimal digits; other finite numbers are printed by the engine.
\<close>

definition number_to_string :: "env \<Rightarrow> jsnum \<Rightarrow> string" where
  "number_to_string env n =
     (case n of
        NaN \<Rightarrow> ''NaN''
      | PosInf \<Rightarrow> ''Infinity''
      | NegInf \<Rightarrow> ''-Infinity''
      | Fin q \<Rightarrow>
          (case quotient_of q of
             (a, b) \<Rightarrow>
               if b = 1 \<and> \<bar>a\<bar> \<le> 9007199254740991
               then (if a < 0 then ''-'' else []) @ string_of_nat (nat \<bar>a\<bar>)
               else print_number env q))"

text \<open>\<^verbatim>\<open>Array.prototype.join\<close> on strings.\<close>

fun js_join :: "string \<Rightarrow> string list \<Rightarrow> string" where
  "js_join sep [] = []"
| "js_join sep [x] = x"
| "js_join sep (x # y # ys) = x @ sep @ js_join sep (y # ys)"

text \<open>
  \<^verbatim>\<open>ToString\<close>, applied by every template-literal substitution and by
  \<^verbatim>\<open>encodeURIComponent\<close>.  A primitive value always prints.  An object is first converted
  to a primitive value: the engine calls its \<^verbatim>\<open>toString\<close> method.  A JSON object inherits
  the method that prints \<^verbatim>\<open>[object Object]\<close>, unless it has a member named \<^verbatim>\<open>toString\<close> of
  its own: that member is JSON data, hence not callable, and as the inherited \<^verbatim>\<open>valueOf\<close>
  returns the object itself, the conversion throws a \<^verbatim>\<open>TypeError\<close>.  An array prints its
  elements in order, joined by commas, \<^verbatim>\<open>null\<close> and \<^verbatim>\<open>undefined\<close> elements as the empty
  string; the first element that throws aborts it.  \<open>join_parts\<close> is the conversion of
  the elements, shared with \<^verbatim>\<open>.join\<close>.
\<close>

fun to_string :: "env \<Rightarrow> jsval \<Rightarrow> js_error + string"
  and join_parts :: "env \<Rightarrow> jsval list \<Rightarrow> js_error + string list" where
  "to_string env JUndefined = Inr ''undefined''"
| "to_string env JNull = Inr ''null''"
| "to_string env (JBool b) = Inr (if b then ''true'' else ''false'')"
| "to_string env (JNum n) = Inr (number_to_string env n)"
| "to_string env (JStr s) = Inr s"
| "to_string env (JArr xs) =
     and_then (join_parts env xs) (\<lambda>parts. Inr (js_join '','' parts))"
| "to_string env (JObj kv) =
     (if ''toString'' \<in> set (map fst kv) then Inl (TypeError (JObj kv) ''toString'')
      else Inr ''[object Object]'')"
| "join_parts env [] = Inr []"
| "join_parts env (x # xs) =
     and_then
       (case x of JUndefined \<Rightarrow> Inr [] | JNull \<Rightarrow> Inr [] | _ \<Rightarrow> to_string env x)
       (\<lambda>part. and_then (join_parts env xs) (\<lambda>parts. Inr (part # parts)))"

text \<open>
  \<^verbatim>\<open>ToPrimitive\<close>: a primitive value is left as it is; an array or object becomes the
  string that \<^verbatim>\<open>ToString\<close> gives, or throws as it does.
\<close>

fun to_primitive :: "env \<Rightarrow> jsval \<Rightarrow> js_error + jsval" where
  "to_primitive env (JArr xs) = and_then (to_string env (JArr xs)) (\<lambda>s. Inr (JStr s))"
| "to_primitive env (JObj kv) = and_then (to_string env (JObj kv)) (\<lambda>s. Inr (JStr s))"
| "to_primitive env v = Inr v"

text \<open>
  \<^verbatim>\<open>ToNumber\<close>, applied by \<^verbatim>\<open>Math.min\<close> to each argument.  An array or object is first
  converted to a primitive value, which may throw; the text \<^verbatim>\<open>[object Object]\<close> of an
  object is not a number.
\<close>

fun to_number :: "env \<Rightarrow> jsval \<Rightarrow> js_error + jsnum" where
  "to_number env JUndefined = Inr NaN"
| "to_number env JNull = Inr (Fin 0)"
| "to_number env (JBool b) = Inr (if b then Fin 1 else Fin 0)"
| "to_number env (JNum n) = Inr n"
| "to_number env (JStr s) = Inr (string_to_number env s)"
| "to_number env (JArr xs) =
     and_then (to_string env (JArr xs)) (\<lambda>s. Inr (string_to_number env s))"
| "to_number env (JObj kv) = and_then (to_string env (JObj kv)) (\<lambda>s. Inr NaN)"

text \<open>\<^verbatim>\<open>Math.min\<close> of two numbers: \<^verbatim>\<open>NaN\<close> if either is \<^verbatim>\<open>NaN\<close>.\<close>

definition num_min :: "jsnum \<Rightarrow> jsnum \<Rightarrow> jsnum" where
  "num_min x y =
     (if x = NaN \<or> y = NaN then NaN
      else if x = NegInf \<or> y = NegInf then NegInf
      else if x = PosInf then y
      else if y = PosInf then x
      else (case (x, y) of (Fin a, Fin b) \<Rightarrow> Fin (min a b) | _ \<Rightarrow> NaN))"

text \<open>\<^verbatim>\<open>Math.min(a, b)\<close> converts its arguments in order, then compares.\<close>

definition math_min :: "env \<Rightarrow> jsval \<Rightarrow> jsval \<Rightarrow> js_error + jsnum" where
  "math_min env a b =
     and_then (to_number env a) (\<lambda>x.
     and_then (to_number env b) (\<lambda>y. Inr (num_min x y)))"

text \<open>
  \<^verbatim>\<open>encodeURIComponent\<close>: the argument is converted to a string; a string with a lone
  surrogate throws a \<^verbatim>\<open>URIError\<close>; otherwise every byte of the UTF-8 encoding that is not
  an unreserved character is written as \<^verbatim>\<open>%XX\<close>.
\<close>

fun has_lone_surrogate :: "string \<Rightarrow> bool" where
  "has_lone_surrogate (a # b # s) =
     ((a = CHR 0xED \<and> (160 :: nat) \<le> of_char b) \<or> has_lone_surrogate (b # s))"
| "has_lone_surrogate s = False"

definition uri_unreserved :: "char \<Rightarrow> bool" where
  "uri_unreserved c =
     (c \<in> set ''ABCDEFGHIJKLMNOPQRSTUVWXYZabcdefghijklmnopqrstuvwxyz0123456789-_.!~*()''
      \<or> c = CHR 0x27)"

definition hex_digit :: "nat \<Rightarrow> char" where
  "hex_digit n = ''0123456789ABCDEF'' ! (n mod 16)"

definition percent_encode :: "char \<Rightarrow> string" where
  "percent_encode c =
     (if uri_unreserved c then [c]
      else [CHR ''%'', hex_digit (of_char c div 16), hex_digit (of_char c mod 16)])"

definition encodeURIComponent :: "env \<Rightarrow> jsval \<Rightarrow> js_error + string" where
  "encodeURIComponent env v =
     and_then (to_string env v) (\<lambda>s.
       if has_lone_surrogate s then Inl URIError
       else Inr (concat (map percent_encode s)))"

text \<open>
  \<^verbatim>\<open>new Date(v).toLocaleDateString("ja-JP")\<close> and \<^verbatim>\<open>new Date(v).toLocaleString("ja-JP")\<close>:
  the constructor converts \<open>v\<close> to a primitive value, which may throw; the rendering of
  the date built from that value (\<^verbatim>\<open>Invalid Date\<close> included) does not throw.
\<close>

definition date_to_locale_date_string :: "env \<Rightarrow> jsval \<Rightarrow> js_error + string" where
  "date_to_locale_date_string env v =
     and_then (to_primitive env v) (\<lambda>p. Inr (to_locale_date_string env p))"

definition date_to_locale_string :: "env \<Rightarrow> jsval \<Rightarrow> js_error + string" where
  "date_to_locale_string env v =
     and_then (to_primitive env v) (\<lambda>p. Inr (to_locale_string env p))"

section \<open>Properties and methods of parsed JSON\<close>

text \<open>
  A property read \<^verbatim>\<open>v.k\<close>, for the keys that the source reads from parsed JSON
  (\<^verbatim>\<open>articles\<close>, \<^verbatim>\<open>article\<close>, \<^verbatim>\<open>events\<close>, \<^verbatim>\<open>title\<close>, \<^verbatim>\<open>error\<close>, ...; none of them is a
  member of a prototype).  Reading from \<^verbatim>\<open>null\<close> or \<^verbatim>\<open>undefined\<close> throws; a value that is
  not an object has none of these properties.
\<close>

fun get_prop :: "jsval \<Rightarrow> string \<Rightarrow> js_error + jsval" where
  "get_prop JUndefined k = Inl (TypeError JUndefined k)"
| "get_prop JNull k = Inl (TypeError JNull k)"
| "get_prop (JObj kv) k = Inr (case map_of kv k of None \<Rightarrow> JUndefined | Some v \<Rightarrow> v)"
| "get_prop v k = Inr JUndefined"

text \<open>\<^verbatim>\<open>${v.k}\<close>\<close>

definition prop_string :: "env \<Rightarrow> jsval \<Rightarrow> string \<Rightarrow> js_error + string" where
  "prop_string env v k = and_then (get_prop v k) (to_string env)"

text \<open>
  \<^verbatim>\<open>v.length\<close>: the number of elements of an array, of UTF-16 code units of a string
  (one per code point, two for a code point encoded in four bytes), the \<^verbatim>\<open>length\<close>
  member of an object, \<^verbatim>\<open>undefined\<close> on a number or boolean.
\<close>

definition utf16_length :: "string \<Rightarrow> nat" where
  "utf16_length s =
     length (filter (\<lambda>c. (of_char c :: nat) div 64 \<noteq> 2) s)
     + length (filter (\<lambda>c. (240 :: nat) \<le> of_char c) s)"

fun js_length :: "jsval \<Rightarrow> js_error + jsval" where
  "js_length (JArr xs) = Inr (JNum (Fin (of_nat (length xs))))"
| "js_length (JStr s) = Inr (JNum (Fin (of_nat (utf16_length s))))"
| "js_length v = get_prop v ''length''"

text \<open>
  \<^verbatim>\<open>v.map((x, index) => f(x, index))\<close>: only an array has the method; on any other value
  the call throws.
\<close>

fun js_map :: "jsval \<Rightarrow> (jsval \<Rightarrow> nat \<Rightarrow> js_error + 'a) \<Rightarrow> js_error + 'a list" where
  "js_map (JArr xs) f = collect (map (\<lambda>(x, index). f x index) (zip xs [0 ..< length xs]))"
| "js_map v f = Inl (TypeError v ''map'')"

text \<open>\<^verbatim>\<open>v.join(sep)\<close>, likewise; the elements are converted as by \<^verbatim>\<open>ToString\<close> of an array.\<close>

fun call_join :: "env \<Rightarrow> jsval \<Rightarrow> string \<Rightarrow> js_error + string" where
  "call_join env (JArr xs) sep =
     and_then (join_parts env xs) (\<lambda>parts. Inr (js_join sep parts))"
| "call_join env v sep = Inl (TypeError v ''join'')"

section \<open>Text literals of the handler\<close>

text \<open>
  The literals are the UTF-8 bytes of the source text; each is given with its line, an
  English gloss, and its characters as escapes.
\<close>

text \<open>Line 179 (Error, opening parenthesis): \<^verbatim>\<open>\u30a8\u30e9\u30fc (\<close>\<close>
definition txt_error_open :: string where
  "txt_error_open =
     [CHR 0xE3, CHR 0x82, CHR 0xA8, CHR 0xE3, CHR 0x83, CHR 0xA9, CHR 0xE3, CHR 0x83,
      CHR 0xBC]
     @ '' (''"

text \<open>Line 193 (There are no unread articles.): \<^verbatim>\<open>\u672a\u8aad\u8a18\u4e8b\u304c\u3042\u308a\u307e\u305b\u3093\u3002\<close>\<close>
definition txt_no_unread :: string where
  "txt_no_unread =
     [CHR 0xE6, CHR 0x9C, CHR 0xAA, CHR 0xE8, CHR 0xAA, CHR 0xAD, CHR 0xE8, CHR 0xA8,
      CHR 0x98, CHR 0xE4, CHR 0xBA, CHR 0x8B, CHR 0xE3, CHR 0x81, CHR 0x8C, CHR 0xE3,
      CHR 0x81, CHR 0x82, CHR 0xE3, CHR 0x82, CHR 0x8A, CHR 0xE3, CHR 0x81, CHR 0xBE,
      CHR 0xE3, CHR 0x81, CHR 0x9B, CHR 0xE3, CHR 0x82, CHR 0x93, CHR 0xE3, CHR 0x80,
      CHR 0x82]"

text \<open>Line 200 (minutes, closing parenthesis, line break): \<^verbatim>\<open>\u5206)\n    \<close>\<close>
definition txt_minutes_close :: string where
  "txt_minutes_close =
     [CHR 0xE5, CHR 0x88, CHR 0x86]
     @ '')''
     @ [CHR 0x0A]
     @ ''    ''"

text \<open>Line 201 (Tags): \<^verbatim>\<open>\n    \u30bf\u30b0: \<close>\<close>
definition txt_tags_label :: string where
  "txt_tags_label =
     [CHR 0x0A]
     @ ''    ''
     @ [CHR 0xE3, CHR 0x82, CHR 0xBF, CHR 0xE3, CHR 0x82, CHR 0xB0]
     @ '': ''"

text \<open>Line 202 (ID): \<^verbatim>\<open>\n    ID: \<close>\<close>
definition txt_id_label :: string where
  "txt_id_label =
     [CHR 0x0A]
     @ ''    ID: ''"

text \<open>Line 210 (Unread articles, opening parenthesis): \<^verbatim>\<open>\u672a\u8aad\u8a18\u4e8b\u4e00\u89a7\uff08\<close>\<close>
definition txt_list_header_open :: string where
  "txt_list_header_open =
     [CHR 0xE6, CHR 0x9C, CHR 0xAA, CHR 0xE8, CHR 0xAA, CHR 0xAD, CHR 0xE8, CHR 0xA8,
      CHR 0x98, CHR 0xE4, CHR 0xBA, CHR 0x8B, CHR 0xE4, CHR 0xB8, CHR 0x80, CHR 0xE8,
      CHR 0xA6, CHR 0xA7, CHR 0xEF, CHR 0xBC, CHR 0x88]"

text \<open>Line 210 (items, closing parenthesis, then: For details, call get_article with the article ID.): \<^verbatim>\<open>\u4ef6\uff09\n\u8a73\u7d30\u304c\u5fc5\u8981\u306a\u5834\u5408\u306f get_article \u3067\u8a18\u4e8bID\u3092\u6307\u5b9a\u3057\u3066\u304f\u3060\u3055\u3044\u3002\n\n\<close>\<close>
definition txt_count_close :: string where
  "txt_count_close =
     [CHR 0xE4, CHR 0xBB, CHR 0xB6, CHR 0xEF, CHR 0xBC, CHR 0x89, CHR 0x0A, CHR 0xE8,
      CHR 0xA9, CHR 0xB3, CHR 0xE7, CHR 0xB4, CHR 0xB0, CHR 0xE3, CHR 0x81, CHR 0x8C,
      CHR 0xE5, CHR 0xBF, CHR 0x85, CHR 0xE8, CHR 0xA6, CHR 0x81, CHR 0xE3, CHR 0x81,
      CHR 0xAA, CHR 0xE5, CHR 0xA0, CHR 0xB4, CHR 0xE5, CHR 0x90, CHR 0x88, CHR 0xE3,
      CHR 0x81, CHR 0xAF]
     @ '' get_article ''
     @ [CHR 0xE3, CHR 0x81, CHR 0xA7, CHR 0xE8, CHR 0xA8, CHR 0x98, CHR 0xE4, CHR 0xBA,
      CHR 0x8B]
     @ ''ID''
     @ [CHR 0xE3, CHR 0x82, CHR 0x92, CHR 0xE6, CHR 0x8C, CHR 0x87, CHR 0xE5, CHR 0xAE,
      CHR 0x9A, CHR 0xE3, CHR 0x81, CHR 0x97, CHR 0xE3, CHR 0x81, CHR 0xA6, CHR 0xE3,
      CHR 0x81, CHR 0x8F, CHR 0xE3, CHR 0x81, CHR 0xA0, CHR 0xE3, CHR 0x81, CHR 0x95,
      CHR 0xE3, CHR 0x81, CHR 0x84, CHR 0xE3, CHR 0x80, CHR 0x82, CHR 0x0A, CHR 0x0A]"

text \<open>Line 226 (Error: please specify a search keyword): \<^verbatim>\<open>\u30a8\u30e9\u30fc: \u691c\u7d22\u30ad\u30fc\u30ef\u30fc\u30c9\u3092\u6307\u5b9a\u3057\u3066\u304f\u3060\u3055\u3044\<close>\<close>
definition txt_query_required :: string where
  "txt_query_required =
     [CHR 0xE3, CHR 0x82, CHR 0xA8, CHR 0xE3, CHR 0x83, CHR 0xA9, CHR 0xE3, CHR 0x83,
      CHR 0xBC]
     @ '': ''
     @ [CHR 0xE6, CHR 0xA4, CHR 0x9C, CHR 0xE7, CHR 0xB4, CHR 0xA2, CHR 0xE3, CHR 0x82,
      CHR 0xAD, CHR 0xE3, CHR 0x83, CHR 0xBC, CHR 0xE3, CHR 0x83, CHR 0xAF, CHR 0xE3,
      CHR 0x83, CHR 0xBC, CHR 0xE3, CHR 0x83, CHR 0x89, CHR 0xE3, CHR 0x82, CHR 0x92,
      CHR 0xE6, CHR 0x8C, CHR 0x87, CHR 0xE5, CHR 0xAE, CHR 0x9A, CHR 0xE3, CHR 0x81,
      CHR 0x97, CHR 0xE3, CHR 0x81, CHR 0xA6, CHR 0xE3, CHR 0x81, CHR 0x8F, CHR 0xE3,
      CHR 0x81, CHR 0xA0, CHR 0xE3, CHR 0x81, CHR 0x95, CHR 0xE3, CHR 0x81, CHR 0x84]"

text \<open>Line 253 (Semantic search is currently unavailable. Please try keyword search.): \<^verbatim>\<open>\u30bb\u30de\u30f3\u30c6\u30a3\u30c3\u30af\u691c\u7d22\u306f\u73fe\u5728\u5229\u7528\u3067\u304d\u307e\u305b\u3093\u3002\u30ad\u30fc\u30ef\u30fc\u30c9\u691c\u7d22\u3092\u304a\u8a66\u3057\u304f\u3060\u3055\u3044\u3002\<close>\<close>
definition txt_semantic_unavailable :: string where
  "txt_semantic_unavailable =
     [CHR 0xE3, CHR 0x82, CHR 0xBB, CHR 0xE3, CHR 0x83, CHR 0x9E, CHR 0xE3, CHR 0x83,
      CHR 0xB3, CHR 0xE3, CHR 0x83, CHR 0x86, CHR 0xE3, CHR 0x82, CHR 0xA3, CHR 0xE3,
      CHR 0x83, CHR 0x83, CHR 0xE3, CHR 0x82, CHR 0xAF, CHR 0xE6, CHR 0xA4, CHR 0x9C,
      CHR 0xE7, CHR 0xB4, CHR 0xA2, CHR 0xE3, CHR 0x81, CHR 0xAF, CHR 0xE7, CHR 0x8F,
      CHR 0xBE, CHR 0xE5, CHR 0x9C, CHR 0xA8, CHR 0xE5, CHR 0x88, CHR 0xA9, CHR 0xE7,
      CHR 0x94, CHR 0xA8, CHR 0xE3, CHR 0x81, CHR 0xA7, CHR 0xE3, CHR 0x81, CHR 0x8D,
      CHR 0xE3, CHR 0x81, CHR 0xBE, CHR 0xE3, CHR 0x81, CHR 0x9B, CHR 0xE3, CHR 0x82,
      CHR 0x93, CHR 0xE3, CHR 0x80, CHR 0x82, CHR 0xE3, CHR 0x82, CHR 0xAD, CHR 0xE3,
      CHR 0x83, CHR 0xBC, CHR 0xE3, CHR 0x83, CHR 0xAF, CHR 0xE3, CHR 0x83, CHR 0xBC,
      CHR 0xE3, CHR 0x83, CHR 0x89, CHR 0xE6, CHR 0xA4, CHR 0x9C, CHR 0xE7, CHR 0xB4,
      CHR 0xA2, CHR 0xE3, CHR 0x82, CHR 0x92, CHR 0xE3, CHR 0x81, CHR 0x8A, CHR 0xE8,
      CHR 0xA9, CHR 0xA6, CHR 0xE3, CHR 0x81, CHR 0x97, CHR 0xE3, CHR 0x81, CHR 0x8F,
      CHR 0xE3, CHR 0x81, CHR 0xA0, CHR 0xE3, CHR 0x81, CHR 0x95, CHR 0xE3, CHR 0x81,
      CHR 0x84, CHR 0xE3, CHR 0x80, CHR 0x82]"

text \<open>Line 277 (opening quotation mark): \<^verbatim>\<open>\u300c\<close>\<close>
definition txt_quote_open :: string where
  "txt_quote_open =
     [CHR 0xE3, CHR 0x80, CHR 0x8C]"

text \<open>Line 277 (closing quotation mark, then: no related articles were found.): \<^verbatim>\<open>\u300d\u306b\u95a2\u9023\u3059\u308b\u8a18\u4e8b\u304c\u898b\u3064\u304b\u308a\u307e\u305b\u3093\u3067\u3057\u305f\u3002\<close>\<close>
definition txt_no_related :: string where
  "txt_no_related =
     [CHR 0xE3, CHR 0x80, CHR 0x8D, CHR 0xE3, CHR 0x81, CHR 0xAB, CHR 0xE9, CHR 0x96,
      CHR 0xA2, CHR 0xE9, CHR 0x80, CHR 0xA3, CHR 0xE3, CHR 0x81, CHR 0x99, CHR 0xE3,
      CHR 0x82, CHR 0x8B, CHR 0xE8, CHR 0xA8, CHR 0x98, CHR 0xE4, CHR 0xBA, CHR 0x8B,
      CHR 0xE3, CHR 0x81, CHR 0x8C, CHR 0xE8, CHR 0xA6, CHR 0x8B, CHR 0xE3, CHR 0x81,
      CHR 0xA4, CHR 0xE3, CHR 0x81, CHR 0x8B, CHR 0xE3, CHR 0x82, CHR 0x8A, CHR 0xE3,
      CHR 0x81, CHR 0xBE, CHR 0xE3, CHR 0x81, CHR 0x9B, CHR 0xE3, CHR 0x82, CHR 0x93,
      CHR 0xE3, CHR 0x81, CHR 0xA7, CHR 0xE3, CHR 0x81, CHR 0x97, CHR 0xE3, CHR 0x81,
      CHR 0x9F, CHR 0xE3, CHR 0x80, CHR 0x82]"

text \<open>Line 278 (closing quotation mark, then: no matching articles were found.): \<^verbatim>\<open>\u300d\u306b\u4e00\u81f4\u3059\u308b\u8a18\u4e8b\u304c\u898b\u3064\u304b\u308a\u307e\u305b\u3093\u3067\u3057\u305f\u3002\<close>\<close>
definition txt_no_match :: string where
  "txt_no_match =
     [CHR 0xE3, CHR 0x80, CHR 0x8D, CHR 0xE3, CHR 0x81, CHR 0xAB, CHR 0xE4, CHR 0xB8,
      CHR 0x80, CHR 0xE8, CHR 0x87, CHR 0xB4, CHR 0xE3, CHR 0x81, CHR 0x99, CHR 0xE3,
      CHR 0x82, CHR 0x8B, CHR 0xE8, CHR 0xA8, CHR 0x98, CHR 0xE4, CHR 0xBA, CHR 0x8B,
      CHR 0xE3, CHR 0x81, CHR 0x8C, CHR 0xE8, CHR 0xA6, CHR 0x8B, CHR 0xE3, CHR 0x81,
      CHR 0xA4, CHR 0xE3, CHR 0x81, CHR 0x8B, CHR 0xE3, CHR 0x82, CHR 0x8A, CHR 0xE3,
      CHR 0x81, CHR 0xBE, CHR 0xE3, CHR 0x81, CHR 0x9B, CHR 0xE3, CHR 0x82, CHR 0x93,
      CHR 0xE3, CHR 0x81, CHR 0xA7, CHR 0xE3, CHR 0x81, CHR 0x97, CHR 0xE3, CHR 0x81,
      CHR 0x9F, CHR 0xE3, CHR 0x80, CHR 0x82]"

text \<open>Line 291 (Semantic search): \<^verbatim>\<open>\u30bb\u30de\u30f3\u30c6\u30a3\u30c3\u30af\u691c\u7d22\<close>\<close>
definition txt_semantic_label :: string where
  "txt_semantic_label =
     [CHR 0xE3, CHR 0x82, CHR 0xBB, CHR 0xE3, CHR 0x83, CHR 0x9E, CHR 0xE3, CHR 0x83,
      CHR 0xB3, CHR 0xE3, CHR 0x83, CHR 0x86, CHR 0xE3, CHR 0x82, CHR 0xA3, CHR 0xE3,
      CHR 0x83, CHR 0x83, CHR 0xE3, CHR 0x82, CHR 0xAF, CHR 0xE6, CHR 0xA4, CHR 0x9C,
      CHR 0xE7, CHR 0xB4, CHR 0xA2]"

text \<open>Line 291 (Keyword search): \<^verbatim>\<open>\u30ad\u30fc\u30ef\u30fc\u30c9\u691c\u7d22\<close>\<close>
definition txt_keyword_label :: string where
  "txt_keyword_label =
     [CHR 0xE3, CHR 0x82, CHR 0xAD, CHR 0xE3, CHR 0x83, CHR 0xBC, CHR 0xE3, CHR 0x83,
      CHR 0xAF, CHR 0xE3, CHR 0x83, CHR 0xBC, CHR 0xE3, CHR 0x83, CHR 0x89, CHR 0xE6,
      CHR 0xA4, CHR 0x9C, CHR 0xE7, CHR 0xB4, CHR 0xA2]"

text \<open>Line 297 (results, colon, opening quotation mark): \<^verbatim>\<open>\u7d50\u679c\uff1a\u300c\<close>\<close>
definition txt_result_open :: string where
  "txt_result_open =
     [CHR 0xE7, CHR 0xB5, CHR 0x90, CHR 0xE6, CHR 0x9E, CHR 0x9C, CHR 0xEF, CHR 0xBC,
      CHR 0x9A, CHR 0xE3, CHR 0x80, CHR 0x8C]"

text \<open>Line 297 (closing quotation mark, opening parenthesis): \<^verbatim>\<open>\u300d\uff08\<close>\<close>
definition txt_result_mid :: string where
  "txt_result_mid =
     [CHR 0xE3, CHR 0x80, CHR 0x8D, CHR 0xEF, CHR 0xBC, CHR 0x88]"

text \<open>Line 311 (Error: please specify an article ID): \<^verbatim>\<open>\u30a8\u30e9\u30fc: \u8a18\u4e8bID\u3092\u6307\u5b9a\u3057\u3066\u304f\u3060\u3055\u3044\<close>\<close>
definition txt_article_id_required :: string where
  "txt_article_id_required =
     [CHR 0xE3, CHR 0x82, CHR 0xA8, CHR 0xE3, CHR 0x83, CHR 0xA9, CHR 0xE3, CHR 0x83,
      CHR 0xBC]
     @ '': ''
     @ [CHR 0xE8, CHR 0xA8, CHR 0x98, CHR 0xE4, CHR 0xBA, CHR 0x8B]
     @ ''ID''
     @ [CHR 0xE3, CHR 0x82, CHR 0x92, CHR 0xE6, CHR 0x8C, CHR 0x87, CHR 0xE5, CHR 0xAE,
      CHR 0x9A, CHR 0xE3, CHR 0x81, CHR 0x97, CHR 0xE3, CHR 0x81, CHR 0xA6, CHR 0xE3,
      CHR 0x81, CHR 0x8F, CHR 0xE3, CHR 0x81, CHR 0xA0, CHR 0xE3, CHR 0x81, CHR 0x95,
      CHR 0xE3, CHR 0x81, CHR 0x84]"

text \<open>Line 333 (The article was not found, opening parenthesis, ID): \<^verbatim>\<open>\u8a18\u4e8b\u304c\u898b\u3064\u304b\u308a\u307e\u305b\u3093\u3067\u3057\u305f\uff08ID: \<close>\<close>
definition txt_not_found_open :: string where
  "txt_not_found_open =
     [CHR 0xE8, CHR 0xA8, CHR 0x98, CHR 0xE4, CHR 0xBA, CHR 0x8B, CHR 0xE3, CHR 0x81,
      CHR 0x8C, CHR 0xE8, CHR 0xA6, CHR 0x8B, CHR 0xE3, CHR 0x81, CHR 0xA4, CHR 0xE3,
      CHR 0x81, CHR 0x8B, CHR 0xE3, CHR 0x82, CHR 0x8A, CHR 0xE3, CHR 0x81, CHR 0xBE,
      CHR 0xE3, CHR 0x81, CHR 0x9B, CHR 0xE3, CHR 0x82, CHR 0x93, CHR 0xE3, CHR 0x81,
      CHR 0xA7, CHR 0xE3, CHR 0x81, CHR 0x97, CHR 0xE3, CHR 0x81, CHR 0x9F, CHR 0xEF,
      CHR 0xBC, CHR 0x88]
     @ ''ID: ''"

text \<open>Line 333 (closing parenthesis): \<^verbatim>\<open>\uff09\<close>\<close>
definition txt_paren_close :: string where
  "txt_paren_close =
     [CHR 0xEF, CHR 0xBC, CHR 0x89]"

text \<open>Line 343 (You do not have permission to access this article.): \<^verbatim>\<open>\u3053\u306e\u8a18\u4e8b\u3078\u306e\u30a2\u30af\u30bb\u30b9\u6a29\u9650\u304c\u3042\u308a\u307e\u305b\u3093\u3002\<close>\<close>
definition txt_forbidden :: string where
  "txt_forbidden =
     [CHR 0xE3, CHR 0x81, CHR 0x93, CHR 0xE3, CHR 0x81, CHR 0xAE, CHR 0xE8, CHR 0xA8,
      CHR 0x98, CHR 0xE4, CHR 0xBA, CHR 0x8B, CHR 0xE3, CHR 0x81, CHR 0xB8, CHR 0xE3,
      CHR 0x81, CHR 0xAE, CHR 0xE3, CHR 0x82, CHR 0xA2, CHR 0xE3, CHR 0x82, CHR 0xAF,
      CHR 0xE3, CHR 0x82, CHR 0xBB, CHR 0xE3, CHR 0x82, CHR 0xB9, CHR 0xE6, CHR 0xA8,
      CHR 0xA9, CHR 0xE9, CHR 0x99, CHR 0x90, CHR 0xE3, CHR 0x81, CHR 0x8C, CHR 0xE3,
      CHR 0x81, CHR 0x82, CHR 0xE3, CHR 0x82, CHR 0x8A, CHR 0xE3, CHR 0x81, CHR 0xBE,
      CHR 0xE3, CHR 0x81, CHR 0x9B, CHR 0xE3, CHR 0x82, CHR 0x93, CHR 0xE3, CHR 0x80,
      CHR 0x82]"

text \<open>Line 366 (URL field): \<^verbatim>\<open>\n\n**URL**: \<close>\<close>
definition txt_url_field :: string where
  "txt_url_field =
     [CHR 0x0A, CHR 0x0A]
     @ ''**URL**: ''"

text \<open>Line 368 (Status field): \<^verbatim>\<open>\n**\u30b9\u30c6\u30fc\u30bf\u30b9**: \<close>\<close>
definition txt_status_field :: string where
  "txt_status_field =
     [CHR 0x0A]
     @ ''**''
     @ [CHR 0xE3, CHR 0x82, CHR 0xB9, CHR 0xE3, CHR 0x83, CHR 0x86, CHR 0xE3, CHR 0x83,
      CHR 0xBC, CHR 0xE3, CHR 0x82, CHR 0xBF, CHR 0xE3, CHR 0x82, CHR 0xB9]
     @ ''**: ''"

text \<open>Line 369 (read): \<^verbatim>\<open>\u65e2\u8aad\<close>\<close>
definition txt_status_read :: string where
  "txt_status_read =
     [CHR 0xE6, CHR 0x97, CHR 0xA2, CHR 0xE8, CHR 0xAA, CHR 0xAD]"

text \<open>Line 369 (unread): \<^verbatim>\<open>\u672a\u8aad\<close>\<close>
definition txt_status_unread :: string where
  "txt_status_unread =
     [CHR 0xE6, CHR 0x9C, CHR 0xAA, CHR 0xE8, CHR 0xAA, CHR 0xAD]"

text \<open>Line 369 (deferred): \<^verbatim>\<open>\u5f8c\u56de\u3057\<close>\<close>
definition txt_status_deferred :: string where
  "txt_status_deferred =
     [CHR 0xE5, CHR 0xBE, CHR 0x8C, CHR 0xE5, CHR 0x9B, CHR 0x9E, CHR 0xE3, CHR 0x81,
      CHR 0x97]"

text \<open>Line 369 (unknown): \<^verbatim>\<open>\u4e0d\u660e\<close>\<close>
definition txt_unknown :: string where
  "txt_unknown =
     [CHR 0xE4, CHR 0xB8, CHR 0x8D, CHR 0xE6, CHR 0x98, CHR 0x8E]"

text \<open>Line 369 (Reading time field): \<^verbatim>\<open>\n**\u8aad\u4e86\u6642\u9593**: \<close>\<close>
definition txt_reading_time_field :: string where
  "txt_reading_time_field =
     [CHR 0x0A]
     @ ''**''
     @ [CHR 0xE8, CHR 0xAA, CHR 0xAD, CHR 0xE4, CHR 0xBA, CHR 0x86, CHR 0xE6, CHR 0x99,
      CHR 0x82, CHR 0xE9, CHR 0x96, CHR 0x93]
     @ ''**: ''"

text \<open>Line 370 (minutes, then the Tags field): \<^verbatim>\<open>\u5206\n**\u30bf\u30b0**: \<close>\<close>
definition txt_tags_field :: string where
  "txt_tags_field =
     [CHR 0xE5, CHR 0x88, CHR 0x86, CHR 0x0A]
     @ ''**''
     @ [CHR 0xE3, CHR 0x82, CHR 0xBF, CHR 0xE3, CHR 0x82, CHR 0xB0]
     @ ''**: ''"

text \<open>Line 371 (Content type field): \<^verbatim>\<open>\n**\u30b3\u30f3\u30c6\u30f3\u30c4\u30bf\u30a4\u30d7**: \<close>\<close>
definition txt_content_type_field :: string where
  "txt_content_type_field =
     [CHR 0x0A]
     @ ''**''
     @ [CHR 0xE3, CHR 0x82, CHR 0xB3, CHR 0xE3, CHR 0x83, CHR 0xB3, CHR 0xE3, CHR 0x83,
      CHR 0x86, CHR 0xE3, CHR 0x83, CHR 0xB3, CHR 0xE3, CHR 0x83, CHR 0x84, CHR 0xE3,
      CHR 0x82, CHR 0xBF, CHR 0xE3, CHR 0x82, CHR 0xA4, CHR 0xE3, CHR 0x83, CHR 0x97]
     @ ''**: ''"

text \<open>Line 372 (Saved on field): \<^verbatim>\<open>\n**\u4fdd\u5b58\u65e5**: \<close>\<close>
definition txt_saved_date_field :: string where
  "txt_saved_date_field =
     [CHR 0x0A]
     @ ''**''
     @ [CHR 0xE4, CHR 0xBF, CHR 0x9D, CHR 0xE5, CHR 0xAD, CHR 0x98, CHR 0xE6, CHR 0x97,
      CHR 0xA5]
     @ ''**: ''"

text \<open>Line 373 (Summary field): \<^verbatim>\<open>\n\n**\u8981\u7d04**:\n\<close>\<close>
definition txt_summary_field :: string where
  "txt_summary_field =
     [CHR 0x0A, CHR 0x0A]
     @ ''**''
     @ [CHR 0xE8, CHR 0xA6, CHR 0x81, CHR 0xE7, CHR 0xB4, CHR 0x84]
     @ ''**:''
     @ [CHR 0x0A]"

text \<open>Line 376 (Article ID field): \<^verbatim>\<open>\n\n**\u8a18\u4e8bID**: \<close>\<close>
definition txt_article_id_field :: string where
  "txt_article_id_field =
     [CHR 0x0A, CHR 0x0A]
     @ ''**''
     @ [CHR 0xE8, CHR 0xA8, CHR 0x98, CHR 0xE4, CHR 0xBA, CHR 0x8B]
     @ ''ID**: ''"

text \<open>Line 378 (Event history header line): \<^verbatim>\<open>\n\n**\u30a4\u30d9\u30f3\u30c8\u5c65\u6b74**:\n\<close>\<close>
definition txt_events_header :: string where
  "txt_events_header =
     [CHR 0x0A, CHR 0x0A]
     @ ''**''
     @ [CHR 0xE3, CHR 0x82, CHR 0xA4, CHR 0xE3, CHR 0x83, CHR 0x99, CHR 0xE3, CHR 0x83,
      CHR 0xB3, CHR 0xE3, CHR 0x83, CHR 0x88, CHR 0xE5, CHR 0xB1, CHR 0xA5, CHR 0xE6,
      CHR 0xAD, CHR 0xB4]
     @ ''**:''
     @ [CHR 0x0A]"

text \<open>Line 396 (Error: please specify an article ID and an action): \<^verbatim>\<open>\u30a8\u30e9\u30fc: \u8a18\u4e8bID\u3068\u30a2\u30af\u30b7\u30e7\u30f3\u3092\u6307\u5b9a\u3057\u3066\u304f\u3060\u3055\u3044\<close>\<close>
definition txt_id_and_action_required :: string where
  "txt_id_and_action_required =
     [CHR 0xE3, CHR 0x82, CHR 0xA8, CHR 0xE3, CHR 0x83, CHR 0xA9, CHR 0xE3, CHR 0x83,
      CHR 0xBC]
     @ '': ''
     @ [CHR 0xE8, CHR 0xA8, CHR 0x98, CHR 0xE4, CHR 0xBA, CHR 0x8B]
     @ ''ID''
     @ [CHR 0xE3, CHR 0x81, CHR 0xA8, CHR 0xE3, CHR 0x82, CHR 0xA2, CHR 0xE3, CHR 0x82,
      CHR 0xAF, CHR 0xE3, CHR 0x82, CHR 0xB7, CHR 0xE3, CHR 0x83, CHR 0xA7, CHR 0xE3,
      CHR 0x83, CHR 0xB3, CHR 0xE3, CHR 0x82, CHR 0x92, CHR 0xE6, CHR 0x8C, CHR 0x87,
      CHR 0xE5, CHR 0xAE, CHR 0x9A, CHR 0xE3, CHR 0x81, CHR 0x97, CHR 0xE3, CHR 0x81,
      CHR 0xA6, CHR 0xE3, CHR 0x81, CHR 0x8F, CHR 0xE3, CHR 0x81, CHR 0xA0, CHR 0xE3,
      CHR 0x81, CHR 0x95, CHR 0xE3, CHR 0x81, CHR 0x84]"

text \<open>Line 407 (Error: the action must be one of 'read' or 'delete'): \<^verbatim>\<open>\u30a8\u30e9\u30fc: \u30a2\u30af\u30b7\u30e7\u30f3\u306f 'read' \u307e\u305f\u306f 'delete' \u306e\u3044\u305a\u308c\u304b\u3092\u6307\u5b9a\u3057\u3066\u304f\u3060\u3055\u3044\<close>\<close>
definition txt_action_invalid :: string where
  "txt_action_invalid =
     [CHR 0xE3, CHR 0x82, CHR 0xA8, CHR 0xE3, CHR 0x83, CHR 0xA9, CHR 0xE3, CHR 0x83,
      CHR 0xBC]
     @ '': ''
     @ [CHR 0xE3, CHR 0x82, CHR 0xA2, CHR 0xE3, CHR 0x82, CHR 0xAF, CHR 0xE3, CHR 0x82,
      CHR 0xB7, CHR 0xE3, CHR 0x83, CHR 0xA7, CHR 0xE3, CHR 0x83, CHR 0xB3, CHR 0xE3,
      CHR 0x81, CHR 0xAF]
     @ '' ''
     @ [CHR 0x27]
     @ ''read''
     @ [CHR 0x27]
     @ '' ''
     @ [CHR 0xE3, CHR 0x81, CHR 0xBE, CHR 0xE3, CHR 0x81, CHR 0x9F, CHR 0xE3, CHR 0x81,
      CHR 0xAF]
     @ '' ''
     @ [CHR 0x27]
     @ ''delete''
     @ [CHR 0x27]
     @ '' ''
     @ [CHR 0xE3, CHR 0x81, CHR 0xAE, CHR 0xE3, CHR 0x81, CHR 0x84, CHR 0xE3, CHR 0x81,
      CHR 0x9A, CHR 0xE3, CHR 0x82, CHR 0x8C, CHR 0xE3, CHR 0x81, CHR 0x8B, CHR 0xE3,
      CHR 0x82, CHR 0x92, CHR 0xE6, CHR 0x8C, CHR 0x87, CHR 0xE5, CHR 0xAE, CHR 0x9A,
      CHR 0xE3, CHR 0x81, CHR 0x97, CHR 0xE3, CHR 0x81, CHR 0xA6, CHR 0xE3, CHR 0x81,
      CHR 0x8F, CHR 0xE3, CHR 0x81, CHR 0xA0, CHR 0xE3, CHR 0x81, CHR 0x95, CHR 0xE3,
      CHR 0x81, CHR 0x84]"

text \<open>Line 448 (Marked the article as read): \<^verbatim>\<open>\u8a18\u4e8b\u3092\u65e2\u8aad\u306b\u30de\u30fc\u30af\u3057\u307e\u3057\u305f\<close>\<close>
definition txt_marked_read :: string where
  "txt_marked_read =
     [CHR 0xE8, CHR 0xA8, CHR 0x98, CHR 0xE4, CHR 0xBA, CHR 0x8B, CHR 0xE3, CHR 0x82,
      CHR 0x92, CHR 0xE6, CHR 0x97, CHR 0xA2, CHR 0xE8, CHR 0xAA, CHR 0xAD, CHR 0xE3,
      CHR 0x81, CHR 0xAB, CHR 0xE3, CHR 0x83, CHR 0x9E, CHR 0xE3, CHR 0x83, CHR 0xBC,
      CHR 0xE3, CHR 0x82, CHR 0xAF, CHR 0xE3, CHR 0x81, CHR 0x97, CHR 0xE3, CHR 0x81,
      CHR 0xBE, CHR 0xE3, CHR 0x81, CHR 0x97, CHR 0xE3, CHR 0x81, CHR 0x9F]"

text \<open>Line 449 (Deleted the article): \<^verbatim>\<open>\u8a18\u4e8b\u3092\u524a\u9664\u3057\u307e\u3057\u305f\<close>\<close>
definition txt_deleted :: string where
  "txt_deleted =
     [CHR 0xE8, CHR 0xA8, CHR 0x98, CHR 0xE4, CHR 0xBA, CHR 0x8B, CHR 0xE3, CHR 0x82,
      CHR 0x92, CHR 0xE5, CHR 0x89, CHR 0x8A, CHR 0xE9, CHR 0x99, CHR 0xA4, CHR 0xE3,
      CHR 0x81, CHR 0x97, CHR 0xE3, CHR 0x81, CHR 0xBE, CHR 0xE3, CHR 0x81, CHR 0x97,
      CHR 0xE3, CHR 0x81, CHR 0x9F]"

text \<open>Line 455 (opening parenthesis, ID): \<^verbatim>\<open>\uff08ID: \<close>\<close>
definition txt_id_open :: string where
  "txt_id_open =
     [CHR 0xEF, CHR 0xBC, CHR 0x88]
     @ ''ID: ''"

text \<open>Line 471 (Error: please specify a URL): \<^verbatim>\<open>\u30a8\u30e9\u30fc: URL\u3092\u6307\u5b9a\u3057\u3066\u304f\u3060\u3055\u3044\<close>\<close>
definition txt_url_required :: string where
  "txt_url_required =
     [CHR 0xE3, CHR 0x82, CHR 0xA8, CHR 0xE3, CHR 0x83, CHR 0xA9, CHR 0xE3, CHR 0x83,
      CHR 0xBC]
     @ '': URL''
     @ [CHR 0xE3, CHR 0x82, CHR 0x92, CHR 0xE6, CHR 0x8C, CHR 0x87, CHR 0xE5, CHR 0xAE,
      CHR 0x9A, CHR 0xE3, CHR 0x81, CHR 0x97, CHR 0xE3, CHR 0x81, CHR 0xA6, CHR 0xE3,
      CHR 0x81, CHR 0x8F, CHR 0xE3, CHR 0x81, CHR 0xA0, CHR 0xE3, CHR 0x81, CHR 0x95,
      CHR 0xE3, CHR 0x81, CHR 0x84]"

text \<open>Line 502 (Error: there are 30 unread articles. Read or delete existing articles before saving.): \<^verbatim>\<open>\u30a8\u30e9\u30fc: \u672a\u8aad\u8a18\u4e8b\u304c30\u4ef6\u306b\u9054\u3057\u3066\u3044\u307e\u3059\u3002\u65e2\u5b58\u306e\u8a18\u4e8b\u3092\u8aad\u3080\u304b\u524a\u9664\u3057\u3066\u304b\u3089\u4fdd\u5b58\u3057\u3066\u304f\u3060\u3055\u3044\u3002\<close>\<close>
definition txt_unread_limit :: string where
  "txt_unread_limit =
     [CHR 0xE3, CHR 0x82, CHR 0xA8, CHR 0xE3, CHR 0x83, CHR 0xA9, CHR 0xE3, CHR 0x83,
      CHR 0xBC]
     @ '': ''
     @ [CHR 0xE6, CHR 0x9C, CHR 0xAA, CHR 0xE8, CHR 0xAA, CHR 0xAD, CHR 0xE8, CHR 0xA8,
      CHR 0x98, CHR 0xE4, CHR 0xBA, CHR 0x8B, CHR 0xE3, CHR 0x81, CHR 0x8C]
     @ ''30''
     @ [CHR 0xE4, CHR 0xBB, CHR 0xB6, CHR 0xE3, CHR 0x81, CHR 0xAB, CHR 0xE9, CHR 0x81,
      CHR 0x94, CHR 0xE3, CHR 0x81, CHR 0x97, CHR 0xE3, CHR 0x81, CHR 0xA6, CHR 0xE3,
      CHR 0x81, CHR 0x84, CHR 0xE3, CHR 0x81, CHR 0xBE, CHR 0xE3, CHR 0x81, CHR 0x99,
      CHR 0xE3, CHR 0x80, CHR 0x82, CHR 0xE6, CHR 0x97, CHR 0xA2, CHR 0xE5, CHR 0xAD,
      CHR 0x98, CHR 0xE3, CHR 0x81, CHR 0xAE, CHR 0xE8, CHR 0xA8, CHR 0x98, CHR 0xE4,
      CHR 0xBA, CHR 0x8B, CHR 0xE3, CHR 0x82, CHR 0x92, CHR 0xE8, CHR 0xAA, CHR 0xAD,
      CHR 0xE3, CHR 0x82, CHR 0x80, CHR 0xE3, CHR 0x81, CHR 0x8B, CHR 0xE5, CHR 0x89,
      CHR 0x8A, CHR 0xE9, CHR 0x99, CHR 0xA4, CHR 0xE3, CHR 0x81, CHR 0x97, CHR 0xE3,
      CHR 0x81, CHR 0xA6, CHR 0xE3, CHR 0x81, CHR 0x8B, CHR 0xE3, CHR 0x82, CHR 0x89,
      CHR 0xE4, CHR 0xBF, CHR 0x9D, CHR 0xE5, CHR 0xAD, CHR 0x98, CHR 0xE3, CHR 0x81,
      CHR 0x97, CHR 0xE3, CHR 0x81, CHR 0xA6, CHR 0xE3, CHR 0x81, CHR 0x8F, CHR 0xE3,
      CHR 0x81, CHR 0xA0, CHR 0xE3, CHR 0x81, CHR 0x95, CHR 0xE3, CHR 0x81, CHR 0x84,
      CHR 0xE3, CHR 0x80, CHR 0x82]"

text \<open>Line 512 (Error: the limit of saved articles for this month has been reached.): \<^verbatim>\<open>\u30a8\u30e9\u30fc: \u4eca\u6708\u306e\u8a18\u4e8b\u4fdd\u5b58\u4e0a\u9650\u306b\u9054\u3057\u307e\u3057\u305f\u3002\<close>\<close>
definition txt_limit_reached :: string where
  "txt_limit_reached =
     [CHR 0xE3, CHR 0x82, CHR 0xA8, CHR 0xE3, CHR 0x83, CHR 0xA9, CHR 0xE3, CHR 0x83,
      CHR 0xBC]
     @ '': ''
     @ [CHR 0xE4, CHR 0xBB, CHR 0x8A, CHR 0xE6, CHR 0x9C, CHR 0x88, CHR 0xE3, CHR 0x81,
      CHR 0xAE, CHR 0xE8, CHR 0xA8, CHR 0x98, CHR 0xE4, CHR 0xBA, CHR 0x8B, CHR 0xE4,
      CHR 0xBF, CHR 0x9D, CHR 0xE5, CHR 0xAD, CHR 0x98, CHR 0xE4, CHR 0xB8, CHR 0x8A,
      CHR 0xE9, CHR 0x99, CHR 0x90, CHR 0xE3, CHR 0x81, CHR 0xAB, CHR 0xE9, CHR 0x81,
      CHR 0x94, CHR 0xE3, CHR 0x81, CHR 0x97, CHR 0xE3, CHR 0x81, CHR 0xBE, CHR 0xE3,
      CHR 0x81, CHR 0x97, CHR 0xE3, CHR 0x81, CHR 0x9F, CHR 0xE3, CHR 0x80, CHR 0x82]"

text \<open>Line 522 (This article has already been read.): \<^verbatim>\<open>\u3053\u306e\u8a18\u4e8b\u306f\u65e2\u306b\u8aad\u4e86\u6e08\u307f\u3067\u3059\u3002\<close>\<close>
definition txt_already_read :: string where
  "txt_already_read =
     [CHR 0xE3, CHR 0x81, CHR 0x93, CHR 0xE3, CHR 0x81, CHR 0xAE, CHR 0xE8, CHR 0xA8,
      CHR 0x98, CHR 0xE4, CHR 0xBA, CHR 0x8B, CHR 0xE3, CHR 0x81, CHR 0xAF, CHR 0xE6,
      CHR 0x97, CHR 0xA2, CHR 0xE3, CHR 0x81, CHR 0xAB, CHR 0xE8, CHR 0xAA, CHR 0xAD,
      CHR 0xE4, CHR 0xBA, CHR 0x86, CHR 0xE6, CHR 0xB8, CHR 0x88, CHR 0xE3, CHR 0x81,
      CHR 0xBF, CHR 0xE3, CHR 0x81, CHR 0xA7, CHR 0xE3, CHR 0x81, CHR 0x99, CHR 0xE3,
      CHR 0x80, CHR 0x82]"

text \<open>Line 532 (Error: this content cannot be saved.): \<^verbatim>\<open>\u30a8\u30e9\u30fc: \u3053\u306e\u30b3\u30f3\u30c6\u30f3\u30c4\u306f\u4fdd\u5b58\u3067\u304d\u307e\u305b\u3093\u3002\<close>\<close>
definition txt_invalid_content :: string where
  "txt_invalid_content =
     [CHR 0xE3, CHR 0x82, CHR 0xA8, CHR 0xE3, CHR 0x83, CHR 0xA9, CHR 0xE3, CHR 0x83,
      CHR 0xBC]
     @ '': ''
     @ [CHR 0xE3, CHR 0x81, CHR 0x93, CHR 0xE3, CHR 0x81, CHR 0xAE, CHR 0xE3, CHR 0x82,
      CHR 0xB3, CHR 0xE3, CHR 0x83, CHR 0xB3, CHR 0xE3, CHR 0x83, CHR 0x86, CHR 0xE3,
      CHR 0x83, CHR 0xB3, CHR 0xE3, CHR 0x83, CHR 0x84, CHR 0xE3, CHR 0x81, CHR 0xAF,
      CHR 0xE4, CHR 0xBF, CHR 0x9D, CHR 0xE5, CHR 0xAD, CHR 0x98, CHR 0xE3, CHR 0x81,
      CHR 0xA7, CHR 0xE3, CHR 0x81, CHR 0x8D, CHR 0xE3, CHR 0x81, CHR 0xBE, CHR 0xE3,
      CHR 0x81, CHR 0x9B, CHR 0xE3, CHR 0x82, CHR 0x93, CHR 0xE3, CHR 0x80, CHR 0x82]"

text \<open>Line 543 (Failed to save the article): \<^verbatim>\<open>\u8a18\u4e8b\u306e\u4fdd\u5b58\u306b\u5931\u6557\u3057\u307e\u3057\u305f\<close>\<close>
definition txt_save_failed :: string where
  "txt_save_failed =
     [CHR 0xE8, CHR 0xA8, CHR 0x98, CHR 0xE4, CHR 0xBA, CHR 0x8B, CHR 0xE3, CHR 0x81,
      CHR 0xAE, CHR 0xE4, CHR 0xBF, CHR 0x9D, CHR 0xE5, CHR 0xAD, CHR 0x98, CHR 0xE3,
      CHR 0x81, CHR 0xAB, CHR 0xE5, CHR 0xA4, CHR 0xB1, CHR 0xE6, CHR 0x95, CHR 0x97,
      CHR 0xE3, CHR 0x81, CHR 0x97, CHR 0xE3, CHR 0x81, CHR 0xBE, CHR 0xE3, CHR 0x81,
      CHR 0x97, CHR 0xE3, CHR 0x81, CHR 0x9F]"

text \<open>Line 551 (Re-registered the article): \<^verbatim>\<open>\u8a18\u4e8b\u3092\u518d\u767b\u9332\u3057\u307e\u3057\u305f\<close>\<close>
definition txt_restored :: string where
  "txt_restored =
     [CHR 0xE8, CHR 0xA8, CHR 0x98, CHR 0xE4, CHR 0xBA, CHR 0x8B, CHR 0xE3, CHR 0x82,
      CHR 0x92, CHR 0xE5, CHR 0x86, CHR 0x8D, CHR 0xE7, CHR 0x99, CHR 0xBB, CHR 0xE9,
      CHR 0x8C, CHR 0xB2, CHR 0xE3, CHR 0x81, CHR 0x97, CHR 0xE3, CHR 0x81, CHR 0xBE,
      CHR 0xE3, CHR 0x81, CHR 0x97, CHR 0xE3, CHR 0x81, CHR 0x9F]"

text \<open>Line 552 (The article is already saved): \<^verbatim>\<open>\u8a18\u4e8b\u306f\u65e2\u306b\u4fdd\u5b58\u3055\u308c\u3066\u3044\u307e\u3059\<close>\<close>
definition txt_already_saved :: string where
  "txt_already_saved =
     [CHR 0xE8, CHR 0xA8, CHR 0x98, CHR 0xE4, CHR 0xBA, CHR 0x8B, CHR 0xE3, CHR 0x81,
      CHR 0xAF, CHR 0xE6, CHR 0x97, CHR 0xA2, CHR 0xE3, CHR 0x81, CHR 0xAB, CHR 0xE4,
      CHR 0xBF, CHR 0x9D, CHR 0xE5, CHR 0xAD, CHR 0x98, CHR 0xE3, CHR 0x81, CHR 0x95,
      CHR 0xE3, CHR 0x82, CHR 0x8C, CHR 0xE3, CHR 0x81, CHR 0xA6, CHR 0xE3, CHR 0x81,
      CHR 0x84, CHR 0xE3, CHR 0x81, CHR 0xBE, CHR 0xE3, CHR 0x81, CHR 0x99]"

text \<open>Line 554 (Saved the article): \<^verbatim>\<open>\u8a18\u4e8b\u3092\u4fdd\u5b58\u3057\u307e\u3057\u305f\<close>\<close>
definition txt_saved :: string where
  "txt_saved =
     [CHR 0xE8, CHR 0xA8, CHR 0x98, CHR 0xE4, CHR 0xBA, CHR 0x8B, CHR 0xE3, CHR 0x82,
      CHR 0x92, CHR 0xE4, CHR 0xBF, CHR 0x9D, CHR 0xE5, CHR 0xAD, CHR 0x98, CHR 0xE3,
      CHR 0x81, CHR 0x97, CHR 0xE3, CHR 0x81, CHR 0xBE, CHR 0xE3, CHR 0x81, CHR 0x97,
      CHR 0xE3, CHR 0x81, CHR 0x9F]"

text \<open>Line 560 (URL): \<^verbatim>\<open>\n\nURL: \<close>\<close>
definition txt_saved_url :: string where
  "txt_saved_url =
     [CHR 0x0A, CHR 0x0A]
     @ ''URL: ''"

text \<open>Line 560 (Article ID): \<^verbatim>\<open>\n\u8a18\u4e8bID: \<close>\<close>
definition txt_saved_id :: string where
  "txt_saved_id =
     [CHR 0x0A, CHR 0xE8, CHR 0xA8, CHR 0x98, CHR 0xE4, CHR 0xBA, CHR 0x8B]
     @ ''ID: ''"

text \<open>Line 571 (Unknown tool): \<^verbatim>\<open>\u4e0d\u660e\u306a\u30c4\u30fc\u30eb: \<close>\<close>
definition txt_unknown_tool :: string where
  "txt_unknown_tool =
     [CHR 0xE4, CHR 0xB8, CHR 0x8D, CHR 0xE6, CHR 0x98, CHR 0x8E, CHR 0xE3, CHR 0x81,
      CHR 0xAA, CHR 0xE3, CHR 0x83, CHR 0x84, CHR 0xE3, CHR 0x83, CHR 0xBC, CHR 0xE3,
      CHR 0x83, CHR 0xAB]
     @ '': ''"

text \<open>Line 581 (An error occurred): \<^verbatim>\<open>\u30a8\u30e9\u30fc\u304c\u767a\u751f\u3057\u307e\u3057\u305f: \<close>\<close>
definition txt_exception :: string where
  "txt_exception =
     [CHR 0xE3, CHR 0x82, CHR 0xA8, CHR 0xE3, CHR 0x83, CHR 0xA9, CHR 0xE3, CHR 0x83,
      CHR 0xBC, CHR 0xE3, CHR 0x81, CHR 0x8C, CHR 0xE7, CHR 0x99, CHR 0xBA, CHR 0xE7,
      CHR 0x94, CHR 0x9F, CHR 0xE3, CHR 0x81, CHR 0x97, CHR 0xE3, CHR 0x81, CHR 0xBE,
      CHR 0xE3, CHR 0x81, CHR 0x97, CHR 0xE3, CHR 0x81, CHR 0x9F]
     @ '': ''"

section \<open>Requests, responses and the backend\<close>

text \<open>
  The arguments of \<^verbatim>\<open>fetch\<close>.  A call without a \<^verbatim>\<open>method\<close> option is a \<^verbatim>\<open>GET\<close>.  The body
  of the one request that has a body is \<^verbatim>\<open>JSON.stringify\<close> of an object.
\<close>

record request =
  req_method :: string
  req_url :: string
  req_headers :: "(string \<times> string) list"
  req_body :: "string option"

text \<open>
  What the handler reads of a \<^verbatim>\<open>Response\<close>: \<^verbatim>\<open>response.status\<close>, the result of
  \<^verbatim>\<open>await response.text()\<close>, which is the body or a rejection where the body cannot be
  read, and the result of \<^verbatim>\<open>await response.json()\<close>, which is the parsed body or a
  rejection where the body cannot be read or is not JSON.
\<close>

record response =
  resp_status :: nat
  resp_text :: "js_error + string"
  resp_json :: "js_error + jsval"

text \<open>\<^verbatim>\<open>response.ok\<close>\<close>

definition resp_ok :: "response \<Rightarrow> bool" where
  "resp_ok response = (200 \<le> resp_status response \<and> resp_status response \<le> 299)"

text \<open>\<^verbatim>\<open>await fetch(...)\<close> either yields a response or rejects (network failure).\<close>

datatype fetch_result = FetchRejected string | FetchResolved response

type_synonym backend = "request \<Rightarrow> fetch_result"

text \<open>
  A tool case yields the text of its single content block, or throws; beside it stands
  the list of the requests it has sent with \<^verbatim>\<open>fetch\<close>.
\<close>

type_synonym outcome = "(js_error + string) \<times> request list"

text \<open>A computation that precedes the \<^verbatim>\<open>fetch\<close>: if it throws, nothing is sent.\<close>

definition before_fetch :: "js_error + 'a \<Rightarrow> ('a \<Rightarrow> outcome) \<Rightarrow> outcome" where
  "before_fetch r k = (case r of Inl e \<Rightarrow> (Inl e, []) | Inr x \<Rightarrow> k x)"

definition perform :: "backend \<Rightarrow> request \<Rightarrow> (response \<Rightarrow> js_error + string) \<Rightarrow> outcome" where
  "perform fetch req interpret =
     (case fetch req of
        FetchRejected m \<Rightarrow> Inl (Rejected m)
      | FetchResolved response \<Rightarrow> interpret response,
      [req])"

text \<open>
  The argument bag \<^verbatim>\<open>request.params.arguments\<close> is an object or absent;
  \<^verbatim>\<open>args?.k\<close> is \<^verbatim>\<open>undefined\<close> when the bag or the key is absent.
\<close>

type_synonym args = "(string \<times> jsval) list option"

definition arg :: "args \<Rightarrow> string \<Rightarrow> jsval" where
  "arg args k =
     (case args of
        None \<Rightarrow> JUndefined
      | Some kv \<Rightarrow> (case map_of kv k of None \<Rightarrow> JUndefined | Some v \<Rightarrow> v))"

definition auth_headers :: "env \<Rightarrow> (string \<times> string) list" where
  "auth_headers env = [(''Authorization'', ''Bearer '' @ CURAQ_MCP_TOKEN env)]"

text \<open>
  Lines 179, 262, 352 and 441: the text built from the status and the body text
  \<^verbatim>\<open>error\<close>.
\<close>

definition error_text :: "nat \<Rightarrow> string \<Rightarrow> string" where
  "error_text status error = txt_error_open @ string_of_nat status @ ''): '' @ error"

section \<open>The tool cases\<close>

subsection \<open>Entries of an article list (lines 199-204 and 284-289)\<close>

definition article_entry :: "env \<Rightarrow> jsval \<Rightarrow> nat \<Rightarrow> js_error + string" where
  "article_entry env article index =
     template
       [Inr ''['', Inr (string_of_nat (index + 1)), Inr ''] '',
        prop_string env article ''title'',
        Inr '' ('',
        prop_string env article ''reading_time_minutes'',
        Inr txt_minutes_close,
        prop_string env article ''url'',
        Inr txt_tags_label,
        and_then (get_prop article ''tags'') (\<lambda>tags. call_join env tags '', ''),
        Inr txt_id_label,
        prop_string env article ''id'']"

subsection \<open>\<^verbatim>\<open>list_articles\<close> (lines 161-214)\<close>

text \<open>Line 162.\<close>

definition list_limit :: "env \<Rightarrow> args \<Rightarrow> js_error + jsnum" where
  "list_limit env args =
     math_min env (js_or (arg args ''limit'') (JNum (Fin 20))) (JNum (Fin 50))"

definition list_articles_request :: "env \<Rightarrow> jsnum \<Rightarrow> request" where
  "list_articles_request env limit =
     \<lparr>req_method = ''GET'',
      req_url = CURAQ_API_URL env @ ''/api/v1/articles?limit='' @ number_to_string env limit,
      req_headers = auth_headers env,
      req_body = None\<rparr>"

definition list_articles_response :: "env \<Rightarrow> response \<Rightarrow> js_error + string" where
  "list_articles_response env response =
     (if \<not> resp_ok response then
        and_then (resp_text response) (\<lambda>error.
          Inr (error_text (resp_status response) error))
      else
        and_then (resp_json response) (\<lambda>data.
        and_then (get_prop data ''articles'') (\<lambda>a.
          let articles = js_or a (JArr []) in
          and_then (js_length articles) (\<lambda>len.
            if len = JNum (Fin 0) then Inr txt_no_unread
            else
              and_then (js_map articles (article_entry env)) (\<lambda>articlesList.
                template
                  [Inr txt_list_header_open, to_string env len, Inr txt_count_close,
                   Inr (js_join [CHR 0x0A, CHR 0x0A] articlesList)])))))"

definition list_articles :: "env \<Rightarrow> backend \<Rightarrow> args \<Rightarrow> outcome" where
  "list_articles env fetch args =
     before_fetch (list_limit env args) (\<lambda>limit.
       perform fetch (list_articles_request env limit) (list_articles_response env))"

subsection \<open>\<^verbatim>\<open>search_articles\<close> (lines 216-301)\<close>

text \<open>Line 218.\<close>

definition search_mode :: "args \<Rightarrow> jsval" where
  "search_mode args = js_or (arg args ''mode'') (JStr ''semantic'')"

text \<open>Line 219.\<close>

definition search_limit :: "env \<Rightarrow> args \<Rightarrow> js_error + jsnum" where
  "search_limit env args =
     math_min env (js_or (arg args ''limit'') (JNum (Fin 10))) (JNum (Fin 30))"

text \<open>Lines 233-235.\<close>

definition search_endpoint :: "env \<Rightarrow> jsval \<Rightarrow> string" where
  "search_endpoint env mode =
     (if mode = JStr ''semantic''
      then CURAQ_API_URL env @ ''/api/v1/articles/semantic-search''
      else CURAQ_API_URL env @ ''/api/v1/articles/search'')"

text \<open>
  Lines 237-244, with \<open>q\<close> the value of \<^verbatim>\<open>encodeURIComponent(query)\<close> and \<open>limit\<close> that of
  line 219.
\<close>

definition search_articles_request :: "env \<Rightarrow> jsval \<Rightarrow> string \<Rightarrow> jsnum \<Rightarrow> request" where
  "search_articles_request env mode q limit =
     \<lparr>req_method = ''GET'',
      req_url = search_endpoint env mode @ ''?q='' @ q
                @ ''&limit='' @ number_to_string env limit,
      req_headers = auth_headers env,
      req_body = None\<rparr>"

definition search_articles_response ::
  "env \<Rightarrow> jsval \<Rightarrow> jsval \<Rightarrow> response \<Rightarrow> js_error + string" where
  "search_articles_response env query mode response =
     (if \<not> resp_ok response then
        and_then (resp_text response) (\<lambda>error.
          if resp_status response = 503 \<and> mode = JStr ''semantic''
          then Inr txt_semantic_unavailable
          else Inr (error_text (resp_status response) error))
      else
        and_then (resp_json response) (\<lambda>data.
        and_then (get_prop data ''articles'') (\<lambda>a.
          let searchResults = js_or a (JArr []) in
          and_then (js_length searchResults) (\<lambda>len.
            if len = JNum (Fin 0) then
              (if mode = JStr ''semantic''
               then template [Inr txt_quote_open, to_string env query, Inr txt_no_related]
               else template [Inr txt_quote_open, to_string env query, Inr txt_no_match])
            else
              and_then (js_map searchResults (article_entry env)) (\<lambda>resultsList.
                let modeLabel =
                      (if mode = JStr ''semantic'' then txt_semantic_label
                       else txt_keyword_label)
                in template
                     [Inr modeLabel, Inr txt_result_open, to_string env query,
                      Inr txt_result_mid, to_string env len, Inr txt_count_close,
                      Inr (js_join [CHR 0x0A, CHR 0x0A] resultsList)])))))"

text \<open>
  The limit of line 219 is computed, and may throw, before the check of the query on
  line 221; the query is encoded when the URL is built on line 238.
\<close>

definition search_articles :: "env \<Rightarrow> backend \<Rightarrow> args \<Rightarrow> outcome" where
  "search_articles env fetch args =
     (let query = arg args ''query'';
          mode = search_mode args
      in before_fetch (search_limit env args) (\<lambda>limit.
           if \<not> truthy query then (Inr txt_query_required, [])
           else
             before_fetch (encodeURIComponent env query) (\<lambda>q.
               perform fetch (search_articles_request env mode q limit)
                 (search_articles_response env query mode))))"

subsection \<open>\<^verbatim>\<open>get_article\<close> (lines 303-385)\<close>

text \<open>Lines 317-324, with \<open>id_text\<close> the text of \<^verbatim>\<open>${articleId}\<close>.\<close>

definition get_article_request :: "env \<Rightarrow> string \<Rightarrow> request" where
  "get_article_request env id_text =
     \<lparr>req_method = ''GET'',
      req_url = CURAQ_API_URL env @ ''/api/v1/articles/'' @ id_text,
      req_headers = auth_headers env,
      req_body = None\<rparr>"

text \<open>Line 369.\<close>

definition status_label :: "jsval \<Rightarrow> string" where
  "status_label status =
     (if status = JStr ''read'' then txt_status_read
      else if status = JStr ''unread'' then txt_status_unread
      else if status = JStr ''deferred'' then txt_status_deferred
      else txt_unknown)"

text \<open>Line 381, the callback of \<^verbatim>\<open>events.map\<close>.\<close>

definition event_line :: "env \<Rightarrow> jsval \<Rightarrow> nat \<Rightarrow> js_error + string" where
  "event_line env e index =
     template
       [Inr ''- '',
        prop_string env e ''action'',
        Inr '' ('',
        and_then (get_prop e ''created_at'') (date_to_locale_string env),
        Inr '')'']"

text \<open>Lines 366-378: the parts of the template before the event-history header.\<close>

definition article_fields :: "env \<Rightarrow> jsval \<Rightarrow> (js_error + string) list" where
  "article_fields env article =
     [Inr ''# '',
      prop_string env article ''title'',
      Inr txt_url_field,
      prop_string env article ''url'',
      Inr txt_status_field,
      and_then (get_prop article ''status'') (\<lambda>status. Inr (status_label status)),
      Inr txt_reading_time_field,
      prop_string env article ''reading_time_minutes'',
      Inr txt_tags_field,
      and_then (get_prop article ''tags'') (\<lambda>tags. call_join env tags '', ''),
      Inr txt_content_type_field,
      prop_string env article ''content_type'',
      Inr txt_saved_date_field,
      and_then (get_prop article ''created_at'') (\<lambda>created_at.
        if truthy created_at then date_to_locale_date_string env created_at
        else Inr txt_unknown),
      Inr txt_summary_field,
      prop_string env article ''summary'',
      Inr txt_article_id_field,
      prop_string env article ''id'']"

text \<open>Line 381: \<^verbatim>\<open>events.map(...).join("\n")\<close>\<close>

definition events_text :: "env \<Rightarrow> jsval \<Rightarrow> js_error + string" where
  "events_text env events =
     and_then (js_map events (event_line env)) (\<lambda>ls. Inr (js_join [CHR 0x0A] ls))"

definition get_article_response :: "env \<Rightarrow> jsval \<Rightarrow> response \<Rightarrow> js_error + string" where
  "get_article_response env articleId response =
     (if \<not> resp_ok response then
        and_then (resp_text response) (\<lambda>error.
          if resp_status response = 404
          then template [Inr txt_not_found_open, to_string env articleId, Inr txt_paren_close]
          else if resp_status response = 403 then Inr txt_forbidden
          else Inr (error_text (resp_status response) error))
      else
        and_then (resp_json response) (\<lambda>data.
        and_then (get_prop data ''article'') (\<lambda>article.
        and_then (get_prop data ''events'') (\<lambda>ev.
          let events = js_or ev (JArr []) in
          template
            (article_fields env article
             @ [Inr txt_events_header, events_text env events])))))"

definition get_article :: "env \<Rightarrow> backend \<Rightarrow> args \<Rightarrow> outcome" where
  "get_article env fetch args =
     (let articleId = arg args ''article_id''
      in if \<not> truthy articleId then (Inr txt_article_id_required, [])
         else
           before_fetch (to_string env articleId) (\<lambda>id_text.
             perform fetch (get_article_request env id_text)
               (get_article_response env articleId)))"

subsection \<open>\<^verbatim>\<open>update_article_status\<close> (lines 387-459)\<close>

text \<open>Lines 413-423, with \<open>id_text\<close> the text of \<^verbatim>\<open>${articleId}\<close>.\<close>

definition update_article_status_request :: "env \<Rightarrow> string \<Rightarrow> jsval \<Rightarrow> request" where
  "update_article_status_request env id_text action =
     \<lparr>req_method = (if action = JStr ''read'' then ''POST'' else ''DELETE''),
      req_url =
        (if action = JStr ''read''
         then CURAQ_API_URL env @ ''/api/v1/articles/'' @ id_text @ ''/read''
         else CURAQ_API_URL env @ ''/api/v1/articles/'' @ id_text),
      req_headers = auth_headers env,
      req_body = None\<rparr>"

definition update_article_status_response ::
  "env \<Rightarrow> jsval \<Rightarrow> jsval \<Rightarrow> response \<Rightarrow> js_error + string" where
  "update_article_status_response env articleId action response =
     (if \<not> resp_ok response then
        and_then (resp_text response) (\<lambda>error.
          if resp_status response = 404
          then template [Inr txt_not_found_open, to_string env articleId, Inr txt_paren_close]
          else Inr (error_text (resp_status response) error))
      else
        (let message = (if action = JStr ''read'' then txt_marked_read else txt_deleted)
         in template
              [Inr message, Inr txt_id_open, to_string env articleId, Inr txt_paren_close]))"

definition update_article_status :: "env \<Rightarrow> backend \<Rightarrow> args \<Rightarrow> outcome" where
  "update_article_status env fetch args =
     (let articleId = arg args ''article_id'';
          action = arg args ''action''
      in if \<not> truthy articleId \<or> \<not> truthy action then (Inr txt_id_and_action_required, [])
         else if action \<noteq> JStr ''read'' \<and> action \<noteq> JStr ''delete''
         then (Inr txt_action_invalid, [])
         else
           before_fetch (to_string env articleId) (\<lambda>id_text.
             perform fetch (update_article_status_request env id_text action)
               (update_article_status_response env articleId action)))"

subsection \<open>\<^verbatim>\<open>save_article\<close> (lines 461-564)\<close>

text \<open>Lines 477-479: the object \<^verbatim>\<open>requestBody\<close>, its keys in the order of insertion.\<close>

definition save_request_body :: "jsval \<Rightarrow> jsval \<Rightarrow> jsval \<Rightarrow> (string \<times> jsval) list" where
  "save_request_body url title markdown =
     [(''url'', url)]
     @ (if truthy title then [(''title'', title)] else [])
     @ (if truthy markdown then [(''markdown'', markdown)] else [])"

text \<open>
  Lines 481-491.  \<^verbatim>\<open>JSON.stringify\<close> of JSON data does not throw, so nothing can fail
  between the check of the URL and the \<^verbatim>\<open>fetch\<close>.
\<close>

definition save_article_request :: "env \<Rightarrow> jsval \<Rightarrow> jsval \<Rightarrow> jsval \<Rightarrow> request" where
  "save_article_request env url title markdown =
     \<lparr>req_method = ''POST'',
      req_url = CURAQ_API_URL env @ ''/api/v1/articles'',
      req_headers = auth_headers env @ [(''Content-Type'', ''application/json'')],
      req_body = Some (json_stringify env (JObj (save_request_body url title markdown)))\<rparr>"

text \<open>Line 494: \<^verbatim>\<open>await response.json().catch(() => ({ error: "unknown" }))\<close>\<close>

definition save_error_data :: "response \<Rightarrow> jsval" where
  "save_error_data response =
     (case resp_json response of
        Inl e \<Rightarrow> JObj [(''error'', JStr ''unknown'')]
      | Inr errorData \<Rightarrow> errorData)"

text \<open>Lines 496-537: the message chosen at status 400, if any.\<close>

definition save_canonical_error :: "nat \<Rightarrow> jsval \<Rightarrow> js_error + string option" where
  "save_canonical_error status errorData =
     (if status = 400 then
        and_then (get_prop errorData ''error'') (\<lambda>code.
          Inr (if code = JStr ''unread-limit'' then Some txt_unread_limit
               else if code = JStr ''limit-reached'' then Some txt_limit_reached
               else if code = JStr ''already-read'' then Some txt_already_read
               else if code = JStr ''invalid-content'' then Some txt_invalid_content
               else None))
      else Inr None)"

text \<open>Lines 539-546.\<close>

definition save_generic_error :: "env \<Rightarrow> nat \<Rightarrow> jsval \<Rightarrow> js_error + string" where
  "save_generic_error env status errorData =
     and_then (get_prop errorData ''message'') (\<lambda>message.
     and_then (get_prop errorData ''error'') (\<lambda>code.
     and_then (to_string env (js_or (js_or message code) (JStr txt_save_failed))) (\<lambda>detail.
       Inr (error_text status detail))))"

text \<open>Lines 549-554.\<close>

definition save_success_message :: "jsval \<Rightarrow> jsval \<Rightarrow> string" where
  "save_success_message restored message =
     (if truthy restored then txt_restored
      else if message = JStr txt_already_saved then txt_already_saved
      else txt_saved)"

definition save_article_response :: "env \<Rightarrow> jsval \<Rightarrow> response \<Rightarrow> js_error + string" where
  "save_article_response env url response =
     (if \<not> resp_ok response then
        (let errorData = save_error_data response in
         and_then (save_canonical_error (resp_status response) errorData) (\<lambda>canonical.
           case canonical of
             Some text \<Rightarrow> Inr text
           | None \<Rightarrow> save_generic_error env (resp_status response) errorData))
      else
        and_then (resp_json response) (\<lambda>data.
        and_then (get_prop data ''restored'') (\<lambda>restored.
        and_then (get_prop data ''message'') (\<lambda>message.
          template
            [Inr (save_success_message restored message),
             Inr txt_saved_url,
             to_string env url,
             Inr txt_saved_id,
             prop_string env data ''articleId'']))))"

definition save_article :: "env \<Rightarrow> backend \<Rightarrow> args \<Rightarrow> outcome" where
  "save_article env fetch args =
     (let url = arg args ''url'';
          title = arg args ''title'';
          markdown = arg args ''markdown''
      in if \<not> truthy url then (Inr txt_url_required, [])
         else perform fetch (save_article_request env url title markdown)
                (save_article_response env url))"

section \<open>The handler of tool calls (lines 156-586)\<close>

text \<open>The names of the tools declared in \<^verbatim>\<open>TOOLS\<close> (lines 38-135).\<close>

definition TOOL_NAMES :: "string list" where
  "TOOL_NAMES =
     [''list_articles'', ''search_articles'', ''get_article'', ''update_article_status'',
      ''save_article'']"

text \<open>The \<^verbatim>\<open>switch\<close> on the tool name.\<close>

definition dispatch :: "env \<Rightarrow> backend \<Rightarrow> string \<Rightarrow> args \<Rightarrow> outcome" where
  "dispatch env fetch name args =
     (if name = ''list_articles'' then list_articles env fetch args
      else if name = ''search_articles'' then search_articles env fetch args
      else if name = ''get_article'' then get_article env fetch args
      else if name = ''update_article_status'' then update_article_status env fetch args
      else if name = ''save_article'' then save_article env fetch args
      else (Inr (txt_unknown_tool @ name), []))"

text \<open>
  The value of a tool call is \<^verbatim>\<open>{ content: [{ type: "text", text }] }\<close>.  The handler
  returns it (\<open>Inr\<close>) or fails with a protocol error (\<open>Inl\<close>); its \<^verbatim>\<open>catch\<close> clause turns
  everything thrown in the \<^verbatim>\<open>switch\<close> into a text.
\<close>

datatype content = TextContent string

type_synonym call_tool_result = "js_error + content list"

definition call_tool ::
  "env \<Rightarrow> backend \<Rightarrow> string \<Rightarrow> args \<Rightarrow> call_tool_result \<times> request list" where
  "call_tool env fetch name args =
     (case dispatch env fetch name args of
        (Inr text, sent) \<Rightarrow> (Inr [TextContent text], sent)
      | (Inl error, sent) \<Rightarrow>
          (Inr [TextContent (txt_exception @ error_message env error)], sent))"

section \<open>The declared shape of an article (lines 23-35)\<close>

text \<open>
  The interface \<^verbatim>\<open>Article\<close>: strings \<^verbatim>\<open>id\<close>, \<^verbatim>\<open>url\<close>, \<^verbatim>\<open>title\<close>, \<^verbatim>\<open>summary\<close> and \<^verbatim>\<open>content_type\<close>,
  an array of strings \<^verbatim>\<open>tags\<close>, a number \<^verbatim>\<open>reading_time_minutes\<close>, and the optional members
  \<^verbatim>\<open>priority\<close> (a number) and \<^verbatim>\<open>created_at\<close>, \<^verbatim>\<open>status\<close>, \<^verbatim>\<open>date\<close> (strings).  The source
  casts parsed JSON to it without a check.
\<close>

fun is_string :: "jsval \<Rightarrow> bool" where
  "is_string (JStr s) = True"
| "is_string v = False"

fun is_number :: "jsval \<Rightarrow> bool" where
  "is_number (JNum n) = True"
| "is_number v = False"

fun is_string_array :: "jsval \<Rightarrow> bool" where
  "is_string_array (JArr xs) = list_all is_string xs"
| "is_string_array v = False"

definition member :: "(string \<times> jsval) list \<Rightarrow> string \<Rightarrow> jsval" where
  "member kv k = (case map_of kv k of None \<Rightarrow> JUndefined | Some v \<Rightarrow> v)"

fun is_Article :: "jsval \<Rightarrow> bool" where
  "is_Article (JObj kv) =
     (is_string (member kv ''id'') \<and> is_string (member kv ''url'')
      \<and> is_string (member kv ''title'') \<and> is_string (member kv ''summary'')
      \<and> is_string_array (member kv ''tags'')
      \<and> is_number (member kv ''reading_time_minutes'')
      \<and> is_string (member kv ''content_type'')
      \<and> (member kv ''priority'' = JUndefined \<or> is_number (member kv ''priority''))
      \<and> (member kv ''created_at'' = JUndefined \<or> is_string (member kv ''created_at''))
      \<and> (member kv ''status'' = JUndefined \<or> is_string (member kv ''status''))
      \<and> (member kv ''date'' = JUndefined \<or> is_string (member kv ''date'')))"
| "is_Article v = False"

section \<open>Example inputs\<close>

text \<open>
  An environment with the default API URL.  The engine built-ins are stand-ins, enough
  to evaluate the handler on the examples below; the error messages are those of V8.
\<close>

definition example_env :: env where
  "example_env =
     \<lparr>CURAQ_API_URL = ''https://curaq.app'',
      CURAQ_MCP_TOKEN = ''secret'',
      string_to_number = (\<lambda>s. NaN),
      print_number = (\<lambda>q. ''?''),
      json_stringify = (\<lambda>v. ''{}''),
      to_locale_date_string = (\<lambda>v. ''2025/1/1''),
      to_locale_string = (\<lambda>v. ''2025/1/1 0:00:00''),
      type_error_message =
        (\<lambda>v k. if v = JNull
               then ''Cannot read properties of null (reading '' @ [CHR 0x27] @ k
                    @ [CHR 0x27] @ '')''
               else if k = ''toString'' then ''Cannot convert object to primitive value''
               else k @ '' is not a function''),
      uri_error_message = ''URI malformed''\<rparr>"

text \<open>The same engine in a process started with another API URL and token.\<close>

definition other_env :: env where
  "other_env =
     example_env\<lparr>CURAQ_API_URL := ''http://localhost:3000'', CURAQ_MCP_TOKEN := ''other''\<rparr>"

text \<open>A backend that answers every request with the same response.\<close>

definition respond :: "response \<Rightarrow> backend" where
  "respond r = (\<lambda>req. FetchResolved r)"

text \<open>A backend that answers at one URL only and is unreachable elsewhere.\<close>

definition respond_at :: "string \<Rightarrow> response \<Rightarrow> backend" where
  "respond_at u r =
     (\<lambda>req. if req_url req = u then FetchResolved r else FetchRejected ''unreachable'')"

definition json_response :: "nat \<Rightarrow> jsval \<Rightarrow> response" where
  "json_response status data =
     \<lparr>resp_status = status, resp_text = Inr ''body'', resp_json = Inr data\<rparr>"

definition example_article :: jsval where
  "example_article =
     JObj [(''id'', JStr ''a1''),
           (''url'', JStr ''https://example.com/a''),
           (''title'', JStr ''Title''),
           (''summary'', JStr ''Summary''),
           (''tags'', JArr [JStr ''ts'', JStr ''mcp'']),
           (''reading_time_minutes'', JNum (Fin 5)),
           (''content_type'', JStr ''article''),
           (''status'', JStr ''unread'')]"

text \<open>An object with a member named \<^verbatim>\<open>toString\<close>: \<^verbatim>\<open>{ "toString": 1 }\<close>.\<close>

definition unprintable :: jsval where
  "unprintable = JObj [(''toString'', JNum (Fin 1))]"

text \<open>A success body of \<^verbatim>\<open>save_article\<close> with a given message and further members.\<close>

definition saved_body :: "jsval \<Rightarrow> (string \<times> jsval) list \<Rightarrow> jsval" where
  "saved_body message rest =
     JObj ([(''success'', JBool True), (''message'', message), (''articleId'', JStr ''a1'')]
           @ rest)"

section \<open>Properties of the handler\<close>

subsection \<open>General facts\<close>

lemmas request_defs =
  list_articles_request_def search_articles_request_def get_article_request_def
  update_article_status_request_def save_article_request_def auth_headers_def
  search_mode_def search_endpoint_def js_or_def number_to_string_def
  string_of_nat.simps digit_def save_request_body_def example_env_def

lemmas coercion_defs =
  list_limit_def search_limit_def math_min_def num_min_def js_or_def and_then_def
  encodeURIComponent_def percent_encode_def uri_unreserved_def hex_digit_def
  unprintable_def

text \<open>
  Every call yields a single text block: what the \<^verbatim>\<open>switch\<close> returns, or the message
  of what it throws.
\<close>

lemma call_tool_text:
  "call_tool env fetch name args =
     (Inr [TextContent (case fst (dispatch env fetch name args) of
                          Inr text \<Rightarrow> text
                        | Inl error \<Rightarrow> txt_exception @ error_message env error)],
      snd (dispatch env fetch name args))"
  by (simp add: call_tool_def split: prod.splits sum.splits)

lemma call_tool_Inr:
  "dispatch env fetch name args = (Inr text, sent) \<Longrightarrow>
   call_tool env fetch name args = (Inr [TextContent text], sent)"
  by (simp add: call_tool_def)

lemma call_tool_Inl:
  "dispatch env fetch name args = (Inl e, sent) \<Longrightarrow>
   call_tool env fetch name args
     = (Inr [TextContent (txt_exception @ error_message env e)], sent)"
  by (simp add: call_tool_def)

lemma perform_resolved:
  "fetch req = FetchResolved response \<Longrightarrow>
   perform fetch req interpret = (interpret response, [req])"
  by (simp add: perform_def)

lemma perform_sent: "snd (perform fetch req interpret) = [req]"
  by (simp add: perform_def)

text \<open>No call sends more than one request.\<close>

lemma call_tool_at_most_one_request:
  "length (snd (call_tool env fetch name args)) \<le> 1"
  by (simp add: call_tool_text dispatch_def list_articles_def search_articles_def
      get_article_def update_article_status_def save_article_def perform_sent Let_def
      before_fetch_def split: sum.splits)

lemma list_articles_dispatch:
  "dispatch env fetch ''list_articles'' args =
     (case list_limit env args of
        Inl e \<Rightarrow> (Inl e, [])
      | Inr limit \<Rightarrow>
          perform fetch (list_articles_request env limit) (list_articles_response env))"
  by (simp add: dispatch_def list_articles_def before_fetch_def)

lemma search_articles_dispatch:
  "dispatch env fetch ''search_articles'' args =
     (case search_limit env args of
        Inl e \<Rightarrow> (Inl e, [])
      | Inr limit \<Rightarrow>
          if \<not> truthy (arg args ''query'') then (Inr txt_query_required, [])
          else
            (case encodeURIComponent env (arg args ''query'') of
               Inl e \<Rightarrow> (Inl e, [])
             | Inr q \<Rightarrow>
                 perform fetch (search_articles_request env (search_mode args) q limit)
                   (search_articles_response env (arg args ''query'') (search_mode args))))"
  by (simp add: dispatch_def search_articles_def before_fetch_def Let_def split: sum.splits)

lemma get_article_dispatch:
  "dispatch env fetch ''get_article'' args =
     (if \<not> truthy (arg args ''article_id'') then (Inr txt_article_id_required, [])
      else
        (case to_string env (arg args ''article_id'') of
           Inl e \<Rightarrow> (Inl e, [])
         | Inr id_text \<Rightarrow>
             perform fetch (get_article_request env id_text)
               (get_article_response env (arg args ''article_id''))))"
  by (simp add: dispatch_def get_article_def before_fetch_def Let_def)

lemma save_article_dispatch:
  "truthy (arg args ''url'') \<Longrightarrow>
   dispatch env fetch ''save_article'' args =
     perform fetch
       (save_article_request env (arg args ''url'') (arg args ''title'')
          (arg args ''markdown''))
       (save_article_response env (arg args ''url''))"
  by (simp add: dispatch_def save_article_def Let_def)

lemma save_article_sent:
  "truthy (arg args ''url'') \<Longrightarrow>
   snd (call_tool env fetch ''save_article'' args) =
     [save_article_request env (arg args ''url'') (arg args ''title'') (arg args ''markdown'')]"
  by (simp add: call_tool_text save_article_dispatch perform_sent)

lemma template_Inr_append:
  "template ps = Inr s \<Longrightarrow> template (ps @ [Inr a, Inr b]) = Inr (s @ a @ b)"
proof (induction ps arbitrary: s)
  case Nil
  then show ?case by (simp add: and_then_def)
next
  case (Cons p ps)
  then show ?case
    by (cases p) (auto simp: and_then_def split: sum.splits)
qed

lemma events_text_empty: "events_text env (JArr []) = Inr []"
  by (simp add: events_text_def and_then_def)

lemma forbidden_not_generic: "txt_forbidden \<noteq> error_text status error"
  by (simp add: txt_forbidden_def error_text_def txt_error_open_def)

lemma canonical_errors_distinct:
  "distinct [txt_unread_limit, txt_limit_reached, txt_already_read, txt_invalid_content]"
  by (simp add: txt_unread_limit_def txt_limit_reached_def txt_already_read_def
      txt_invalid_content_def)

text \<open>A number always converts; so does the default that replaces a falsy limit.\<close>

lemma math_min_number:
  "math_min env (JNum x) (JNum y) = Inr (num_min x y)"
  by (simp add: math_min_def and_then_def)

text \<open>An article of the declared shape renders without a throw.\<close>

lemma is_string_JStr: "is_string v \<Longrightarrow> \<exists>s. v = JStr s"
  by (cases v) simp_all

lemma is_number_JNum: "is_number v \<Longrightarrow> \<exists>n. v = JNum n"
  by (cases v) simp_all

lemma join_parts_strings:
  "list_all is_string xs \<Longrightarrow> \<exists>parts. join_parts env xs = Inr parts"
proof (induction xs)
  case Nil
  then show ?case by simp
next
  case (Cons x xs)
  then have "is_string x" and "list_all is_string xs" by simp_all
  obtain s where "x = JStr s"
    using \<open>is_string x\<close> is_string_JStr by blast
  moreover obtain parts where "join_parts env xs = Inr parts"
    using Cons.IH \<open>list_all is_string xs\<close> by blast
  ultimately show ?case by (simp add: and_then_def)
qed

lemma call_join_strings:
  "is_string_array v \<Longrightarrow> \<exists>s. call_join env v sep = Inr s"
proof (cases v)
  case (JArr xs)
  assume "is_string_array v"
  with JArr obtain parts where "join_parts env xs = Inr parts"
    using join_parts_strings by auto
  with JArr show ?thesis by (simp add: and_then_def)
qed simp_all

lemma optional_date_renders:
  "v = JUndefined \<or> is_string v \<Longrightarrow>
   \<exists>s. (if truthy v then date_to_locale_date_string env v else Inr txt_unknown) = Inr s"
  by (cases v) (simp_all add: date_to_locale_date_string_def and_then_def)

lemma article_fields_render:
  assumes "is_Article article"
  shows "\<exists>fields. template (article_fields env article) = Inr fields"
proof (cases article)
  case (JObj kv)
  with assms have a: "is_string (member kv ''id'')" "is_string (member kv ''url'')"
    "is_string (member kv ''title'')" "is_string (member kv ''summary'')"
    "is_string_array (member kv ''tags'')" "is_number (member kv ''reading_time_minutes'')"
    "is_string (member kv ''content_type'')"
    "member kv ''created_at'' = JUndefined \<or> is_string (member kv ''created_at'')"
    by simp_all
  obtain i u t s c n where m: "member kv ''id'' = JStr i" "member kv ''url'' = JStr u"
    "member kv ''title'' = JStr t" "member kv ''summary'' = JStr s"
    "member kv ''content_type'' = JStr c" "member kv ''reading_time_minutes'' = JNum n"
    using a is_string_JStr is_number_JNum by metis
  obtain tags where tg: "call_join env (member kv ''tags'') '', '' = Inr tags"
    using a(5) call_join_strings by blast
  obtain d where dt: "(if truthy (member kv ''created_at'')
      then date_to_locale_date_string env (member kv ''created_at'')
      else Inr txt_unknown) = Inr d"
    using a(8) optional_date_renders by blast
  have g: "\<And>k. get_prop article k = Inr (member kv k)"
    using JObj by (simp add: member_def)
  show ?thesis
    using tg dt
    by (simp add: article_fields_def prop_string_def and_then_def g m)
next
  case JUndefined with assms show ?thesis by simp
next
  case JNull with assms show ?thesis by simp
next
  case (JBool b) with assms show ?thesis by simp
next
  case (JNum n) with assms show ?thesis by simp
next
  case (JStr s) with assms show ?thesis by simp
next
  case (JArr xs) with assms show ?thesis by simp
qed

text \<open>
  What is printed depends on the environment through the printing of numbers only, and
  a date rendering through the two renderings of the engine.
\<close>

lemma number_to_string_env:
  "print_number env1 = print_number env2 \<Longrightarrow>
   number_to_string env1 n = number_to_string env2 n"
  by (simp add: number_to_string_def split: jsnum.splits prod.splits)

lemma join_parts_env:
  "(\<And>x. x \<in> set xs \<Longrightarrow> to_string env1 x = to_string env2 x) \<Longrightarrow>
   join_parts env1 xs = join_parts env2 xs"
proof (induction xs)
  case Nil
  then show ?case by simp
next
  case (Cons x xs)
  then have "to_string env1 x = to_string env2 x"
    and "join_parts env1 xs = join_parts env2 xs"
    by simp_all
  then show ?case by (cases x) simp_all
qed

lemma to_string_env:
  assumes "print_number env1 = print_number env2"
  shows "to_string env1 v = to_string env2 v"
proof (induction v)
  case (JNum n)
  show ?case by (simp add: number_to_string_env [OF assms])
next
  case (JArr xs)
  then have "join_parts env1 xs = join_parts env2 xs"
    by (intro join_parts_env) simp
  then show ?case by simp
qed simp_all

lemma join_parts_env_eq:
  "print_number env1 = print_number env2 \<Longrightarrow> join_parts env1 xs = join_parts env2 xs"
  by (rule join_parts_env) (rule to_string_env)

lemma to_primitive_env:
  "print_number env1 = print_number env2 \<Longrightarrow> to_primitive env1 v = to_primitive env2 v"
  by (cases v) (simp_all add: join_parts_env_eq [of env1 env2])

lemma call_join_env:
  "print_number env1 = print_number env2 \<Longrightarrow> call_join env1 v sep = call_join env2 v sep"
  by (cases v) (simp_all add: join_parts_env_eq [of env1 env2])

lemma prop_string_env:
  "print_number env1 = print_number env2 \<Longrightarrow> prop_string env1 v k = prop_string env2 v k"
  by (simp add: prop_string_def and_then_def to_string_env [of env1 env2]
      split: sum.splits)

lemma error_message_env:
  "type_error_message env1 = type_error_message env2 \<Longrightarrow>
   uri_error_message env1 = uri_error_message env2 \<Longrightarrow>
   error_message env1 e = error_message env2 e"
  by (cases e) simp_all

lemma get_article_response_env:
  assumes p: "print_number env1 = print_number env2"
    and d: "to_locale_date_string env1 = to_locale_date_string env2"
    and l: "to_locale_string env1 = to_locale_string env2"
  shows "get_article_response env1 articleId response
           = get_article_response env2 articleId response"
proof -
  have date: "date_to_locale_date_string env1 v = date_to_locale_date_string env2 v" for v
    by (simp add: date_to_locale_date_string_def d to_primitive_env [OF p])
  have time: "date_to_locale_string env1 v = date_to_locale_string env2 v" for v
    by (simp add: date_to_locale_string_def l to_primitive_env [OF p])
  have fields: "article_fields env1 article = article_fields env2 article" for article
    by (simp add: article_fields_def date prop_string_env [OF p] call_join_env [OF p]
        and_then_def cong: sum.case_cong if_cong)
  have line: "event_line env1 = event_line env2"
    by (intro ext)
      (simp add: event_line_def time prop_string_env [OF p] and_then_def cong: sum.case_cong)
  have events: "events_text env1 events = events_text env2 events" for events
    by (simp add: events_text_def line)
  show ?thesis
    by (simp add: get_article_response_def fields events to_string_env [OF p]
        cong: if_cong)
qed

text \<open>
  The two conversions that throw on JSON data: an object with a member named
  \<^verbatim>\<open>toString\<close>, alone or as an element of an array, and the encoding of a lone surrogate.
\<close>

lemma unprintable_throws:
  "to_string env unprintable = Inl (TypeError unprintable ''toString'')"
  "to_string env (JArr [JStr ''a'', unprintable]) = Inl (TypeError unprintable ''toString'')"
  "to_number env unprintable = Inl (TypeError unprintable ''toString'')"
  by (simp_all add: unprintable_def and_then_def)

lemma lone_surrogate_throws:
  "encodeURIComponent env (JStr [CHR 0xED, CHR 0xA0, CHR 0x80]) = Inl URIError"
  by (simp add: encodeURIComponent_def and_then_def)

subsection \<open>Endpoint of \<^verbatim>\<open>search_articles\<close>\<close>




subsection \<open>The \<^verbatim>\<open>limit\<close> of \<^verbatim>\<open>list_articles\<close>\<close>

text \<open>
  Claim C2, as the code has it.  Let \<open>L = Math.min(limit || 20, 50)\<close> (line 162).  When
  this yields a number, a \<^verbatim>\<open>list_articles\<close> call sends exactly one request, to
  \<^verbatim>\<open>/api/v1/articles?limit=L\<close>; when it throws, the call sends nothing and returns the
  exception text.  \<open>L\<close> is 20 when \<^verbatim>\<open>limit\<close> is absent or falsy (\<^verbatim>\<open>null\<close>, \<^verbatim>\<open>false\<close>, \<open>0\<close>,
  the empty string); it is the given number when that is not zero and at most 50, which
  includes every negative number (there is no lower bound); it is 50 when the number
  exceeds 50.  A truthy value that is not a number is converted to a number and not
  replaced by 20: \<^verbatim>\<open>true\<close> gives 1; a non-empty string gives the minimum of its numeric
  value and 50, which is \<^verbatim>\<open>NaN\<close> when the string is not numeric; an object without a
  member named \<^verbatim>\<open>toString\<close> gives \<^verbatim>\<open>NaN\<close>; an object with such a member makes the
  conversion throw.
\<close>

theorem list_limit_cases:
  "(list_limit env args = Inr limit \<longrightarrow>
      snd (call_tool env fetch ''list_articles'' args) = [list_articles_request env limit])
   \<and> (list_limit env args = Inl e \<longrightarrow>
      call_tool env fetch ''list_articles'' args
        = (Inr [TextContent (txt_exception @ error_message env e)], []))
   \<and> req_url (list_articles_request env limit)
       = CURAQ_API_URL env @ ''/api/v1/articles?limit='' @ number_to_string env limit
   \<and> (\<not> truthy (arg args ''limit'') \<longrightarrow> list_limit env args = Inr (Fin 20))
   \<and> (arg args ''limit'' = JNum (Fin n) \<and> n \<noteq> 0 \<and> n \<le> 50 \<longrightarrow>
        list_limit env args = Inr (Fin n))
   \<and> (arg args ''limit'' = JNum (Fin n) \<and> 50 < n \<longrightarrow> list_limit env args = Inr (Fin 50))
   \<and> (arg args ''limit'' = JBool True \<longrightarrow> list_limit env args = Inr (Fin 1))
   \<and> (arg args ''limit'' = JStr s \<and> s \<noteq> [] \<longrightarrow>
        list_limit env args = Inr (num_min (string_to_number env s) (Fin 50)))
   \<and> num_min NaN (Fin 50) = NaN
   \<and> (arg args ''limit'' = JObj kv \<and> ''toString'' \<notin> set (map fst kv) \<longrightarrow>
        list_limit env args = Inr NaN)
   \<and> (arg args ''limit'' = JObj kv \<and> ''toString'' \<in> set (map fst kv) \<longrightarrow>
        list_limit env args = Inl (TypeError (JObj kv) ''toString''))"
proof -
  have sent: "list_limit env args = Inr limit \<longrightarrow>
      snd (call_tool env fetch ''list_articles'' args) = [list_articles_request env limit]"
    by (simp add: call_tool_text list_articles_dispatch perform_sent)
  have thrown: "list_limit env args = Inl e \<longrightarrow>
      call_tool env fetch ''list_articles'' args
        = (Inr [TextContent (txt_exception @ error_message env e)], [])"
    by (simp add: call_tool_def list_articles_dispatch)
  show ?thesis
    using sent thrown
    by (simp add: list_articles_request_def list_limit_def math_min_def js_or_def
        num_min_def and_then_def)
qed

theorem list_limit_cases_witness:
  "map req_url
      (snd (call_tool example_env (respond (json_response 200 JNull)) ''list_articles'' None))
     = [''https://curaq.app/api/v1/articles?limit=20'']
   \<and> map req_url
      (snd (call_tool example_env (respond (json_response 200 JNull)) ''list_articles''
              (Some [(''limit'', JNum (Fin 7))])))
     = [''https://curaq.app/api/v1/articles?limit=7'']
   \<and> map req_url
      (snd (call_tool example_env (respond (json_response 200 JNull)) ''list_articles''
              (Some [(''limit'', JNum (Fin 999))])))
     = [''https://curaq.app/api/v1/articles?limit=50'']
   \<and> map req_url
      (snd (call_tool example_env (respond (json_response 200 JNull)) ''list_articles''
              (Some [(''limit'', JNum (Fin (- 5)))])))
     = [''https://curaq.app/api/v1/articles?limit=-5'']
   \<and> map req_url
      (snd (call_tool example_env (respond (json_response 200 JNull)) ''list_articles''
              (Some [(''limit'', JBool True)])))
     = [''https://curaq.app/api/v1/articles?limit=1'']
   \<and> map req_url
      (snd (call_tool example_env (respond (json_response 200 JNull)) ''list_articles''
              (Some [(''limit'', JStr ''many'')])))
     = [''https://curaq.app/api/v1/articles?limit=NaN'']
   \<and> map req_url
      (snd (call_tool example_env (respond (json_response 200 JNull)) ''list_articles''
              (Some [(''limit'', JObj [(''max'', JNum (Fin 5))])])))
     = [''https://curaq.app/api/v1/articles?limit=NaN'']
   \<and> call_tool example_env (respond (json_response 200 JNull)) ''list_articles''
         (Some [(''limit'', unprintable)])
     = (Inr [TextContent (txt_exception @ ''Cannot convert object to primitive value'')], [])"
  using
    list_limit_cases [where env = example_env and fetch = "respond (json_response 200 JNull)"
      and args = None and n = 0 and s = "[]" and kv = "[]" and limit = "Fin 20"]
    list_limit_cases [where env = example_env and fetch = "respond (json_response 200 JNull)"
      and args = "Some [(''limit'', JNum (Fin 7))]" and n = 7 and s = "[]" and kv = "[]"
      and limit = "Fin 7"]
    list_limit_cases [where env = example_env and fetch = "respond (json_response 200 JNull)"
      and args = "Some [(''limit'', JNum (Fin 999))]" and n = 999 and s = "[]" and kv = "[]"
      and limit = "Fin 50"]
    list_limit_cases [where env = example_env and fetch = "respond (json_response 200 JNull)"
      and args = "Some [(''limit'', JNum (Fin (- 5)))]" and n = "- 5" and s = "[]"
      and kv = "[]" and limit = "Fin (- 5)"]
    list_limit_cases [where env = example_env and fetch = "respond (json_response 200 JNull)"
      and args = "Some [(''limit'', JBool True)]" and n = 0 and s = "[]" and kv = "[]"
      and limit = "Fin 1"]
    list_limit_cases [where env = example_env and fetch = "respond (json_response 200 JNull)"
      and args = "Some [(''limit'', JStr ''many'')]" and n = 0 and s = "''many''"
      and kv = "[]" and limit = NaN]
    list_limit_cases [where env = example_env and fetch = "respond (json_response 200 JNull)"
      and args = "Some [(''limit'', JObj [(''max'', JNum (Fin 5))])]" and n = 0 and s = "[]"
      and kv = "[(''max'', JNum (Fin 5))]" and limit = NaN]
    list_limit_cases [where env = example_env and fetch = "respond (json_response 200 JNull)"
      and args = "Some [(''limit'', unprintable)]" and n = 0 and s = "[]"
      and kv = "[(''toString'', JNum (Fin 1))]" and limit = NaN
      and e = "TypeError unprintable ''toString''"]
  by (simp add: arg_def num_min_def number_to_string_def string_of_nat.simps digit_def
      example_env_def unprintable_def)

text \<open>
  Claim C2 as written says that a negative or non-numeric \<^verbatim>\<open>limit\<close> falls back to 20.
  With \<^verbatim>\<open>limit = -5\<close> the request asks for \<^verbatim>\<open>limit=-5\<close>, and with the non-numeric
  \<^verbatim>\<open>limit = true\<close> the limit is 1.
\<close>

theorem list_limit_fallback_counterexample:
  "list_limit example_env (Some [(''limit'', JNum (Fin (- 5)))]) = Inr (Fin (- 5))
   \<and> list_limit example_env (Some [(''limit'', JNum (Fin (- 5)))]) \<noteq> Inr (Fin 20)
   \<and> map req_url
        (snd (call_tool example_env (respond (json_response 200 JNull)) ''list_articles''
                (Some [(''limit'', JNum (Fin (- 5)))])))
     = [''https://curaq.app/api/v1/articles?limit=-5'']
   \<and> list_limit example_env (Some [(''limit'', JBool True)]) = Inr (Fin 1)
   \<and> list_limit example_env (Some [(''limit'', JBool True)]) \<noteq> Inr (Fin 20)"
  by (simp add: call_tool_text list_articles_dispatch perform_sent arg_def request_defs
      coercion_defs)

subsection \<open>Validation of required arguments\<close>

text \<open>
  Claim C3, as the code has it.  A required argument that is missing reads as
  \<^verbatim>\<open>undefined\<close>, which is falsy; the checks of the source reject every falsy value.  When
  \<^verbatim>\<open>article_id\<close> is missing for \<^verbatim>\<open>get_article\<close>, \<^verbatim>\<open>article_id\<close> or \<^verbatim>\<open>action\<close> for
  \<^verbatim>\<open>update_article_status\<close>, or \<^verbatim>\<open>url\<close> for \<^verbatim>\<open>save_article\<close>, and when \<^verbatim>\<open>action\<close> is neither
  \<^verbatim>\<open>read\<close> nor \<^verbatim>\<open>delete\<close>, the handler returns a validation text of the tool as a single
  text block, sends no request, and raises no protocol error (\<^verbatim>\<open>list_articles\<close> has no
  required argument).  For an action other than \<^verbatim>\<open>read\<close> and \<^verbatim>\<open>delete\<close> the text names
  the two admissible actions when both arguments are present, and asks for both
  arguments otherwise.  For \<^verbatim>\<open>search_articles\<close> the limit of line 219 is computed before
  the query is checked on line 221: when \<^verbatim>\<open>query\<close> is missing and the limit converts to a
  number (in particular when \<^verbatim>\<open>limit\<close> is absent or a number), the result is the
  validation text; when the conversion throws, the result is the exception text,
  whatever the query.  In both cases no request is sent and no protocol error is raised.
\<close>

theorem missing_required_argument:
  "(\<not> truthy (arg args ''query'') \<and> search_limit env args = Inr limit \<longrightarrow>
      call_tool env fetch ''search_articles'' args
        = (Inr [TextContent txt_query_required], []))
   \<and> (\<not> truthy (arg args ''query'')
       \<and> (arg args ''limit'' = JUndefined \<or> is_number (arg args ''limit'')) \<longrightarrow>
      call_tool env fetch ''search_articles'' args
        = (Inr [TextContent txt_query_required], []))
   \<and> (search_limit env args = Inl e \<longrightarrow>
      call_tool env fetch ''search_articles'' args
        = (Inr [TextContent (txt_exception @ error_message env e)], []))
   \<and> (\<not> truthy (arg args ''article_id'') \<longrightarrow>
      call_tool env fetch ''get_article'' args
        = (Inr [TextContent txt_article_id_required], []))
   \<and> (\<not> truthy (arg args ''article_id'') \<or> \<not> truthy (arg args ''action'') \<longrightarrow>
      call_tool env fetch ''update_article_status'' args
        = (Inr [TextContent txt_id_and_action_required], []))
   \<and> (arg args ''action'' \<noteq> JStr ''read'' \<and> arg args ''action'' \<noteq> JStr ''delete'' \<longrightarrow>
      call_tool env fetch ''update_article_status'' args
        = (Inr [TextContent
             (if truthy (arg args ''article_id'') \<and> truthy (arg args ''action'')
              then txt_action_invalid else txt_id_and_action_required)], []))
   \<and> (\<not> truthy (arg args ''url'') \<longrightarrow>
      call_tool env fetch ''save_article'' args
        = (Inr [TextContent txt_url_required], []))"
proof -
  have convertible: "\<exists>limit. search_limit env args = Inr limit"
    if "arg args ''limit'' = JUndefined \<or> is_number (arg args ''limit'')"
    using that is_number_JNum [of "arg args ''limit''"]
    by (auto simp add: search_limit_def js_or_def math_min_number)
  have search: "call_tool env fetch ''search_articles'' args
        = (Inr [TextContent txt_query_required], [])"
    if "\<not> truthy (arg args ''query'')" "search_limit env args = Inr l" for l
    using that by (simp add: call_tool_def search_articles_dispatch)
  have thrown: "call_tool env fetch ''search_articles'' args
        = (Inr [TextContent (txt_exception @ error_message env e)], [])"
    if "search_limit env args = Inl e"
    using that by (simp add: call_tool_def search_articles_dispatch)
  show ?thesis
    using convertible search thrown
    by (auto simp add: call_tool_def dispatch_def get_article_def
        update_article_status_def save_article_def)
qed

theorem missing_required_argument_witness:
  "call_tool example_env (respond (json_response 200 JNull)) ''search_articles''
      (Some [(''mode'', JStr ''keyword'')])
     = (Inr [TextContent txt_query_required], [])
   \<and> call_tool example_env (respond (json_response 200 JNull)) ''search_articles''
      (Some [(''limit'', JNum (Fin 5))])
     = (Inr [TextContent txt_query_required], [])
   \<and> call_tool example_env (respond (json_response 200 JNull)) ''search_articles''
      (Some [(''limit'', unprintable)])
     = (Inr [TextContent (txt_exception @ ''Cannot convert object to primitive value'')], [])
   \<and> call_tool example_env (respond (json_response 200 JNull)) ''get_article'' None
     = (Inr [TextContent txt_article_id_required], [])
   \<and> call_tool example_env (respond (json_response 200 JNull)) ''update_article_status''
      (Some [(''article_id'', JStr ''a1'')])
     = (Inr [TextContent txt_id_and_action_required], [])
   \<and> call_tool example_env (respond (json_response 200 JNull)) ''update_article_status''
      (Some [(''article_id'', JStr ''a1''), (''action'', JStr ''archive'')])
     = (Inr [TextContent txt_action_invalid], [])
   \<and> call_tool example_env (respond (json_response 200 JNull)) ''save_article''
      (Some [(''title'', JStr ''Title'')])
     = (Inr [TextContent txt_url_required], [])"
  using
    missing_required_argument [where env = example_env
      and fetch = "respond (json_response 200 JNull)"
      and args = "Some [(''mode'', JStr ''keyword'')]" and limit = "Fin 10"]
    missing_required_argument [where env = example_env
      and fetch = "respond (json_response 200 JNull)"
      and args = "Some [(''limit'', JNum (Fin 5))]" and limit = "Fin 5"]
    missing_required_argument [where env = example_env
      and fetch = "respond (json_response 200 JNull)"
      and args = "Some [(''limit'', unprintable)]"
      and e = "TypeError unprintable ''toString''"]
    missing_required_argument [where env = example_env
      and fetch = "respond (json_response 200 JNull)" and args = None]
    missing_required_argument [where env = example_env
      and fetch = "respond (json_response 200 JNull)"
      and args = "Some [(''article_id'', JStr ''a1'')]"]
    missing_required_argument [where env = example_env
      and fetch = "respond (json_response 200 JNull)"
      and args = "Some [(''article_id'', JStr ''a1''), (''action'', JStr ''archive'')]"]
    missing_required_argument [where env = example_env
      and fetch = "respond (json_response 200 JNull)"
      and args = "Some [(''title'', JStr ''Title'')]"]
  by (simp add: arg_def coercion_defs example_env_def)

text \<open>
  Claim C3 as written promises the validation text for every \<^verbatim>\<open>search_articles\<close> call
  without a query.  With \<^verbatim>\<open>limit = { "toString": 1 }\<close> and no query the call returns the
  exception text instead (and sends nothing).
\<close>

theorem missing_query_counterexample:
  "\<not> truthy (arg (Some [(''limit'', unprintable)]) ''query'')
   \<and> call_tool example_env (respond (json_response 200 JNull)) ''search_articles''
        (Some [(''limit'', unprintable)])
     = (Inr [TextContent (txt_exception @ ''Cannot convert object to primitive value'')], [])
   \<and> txt_exception @ ''Cannot convert object to primitive value'' \<noteq> txt_query_required"
  by (simp add: call_tool_def search_articles_dispatch arg_def coercion_defs
      example_env_def txt_exception_def txt_query_required_def)

subsection \<open>Errors of \<^verbatim>\<open>save_article\<close>\<close>

text \<open>
  Claim C4, as the code has it.  Let a \<^verbatim>\<open>save_article\<close> request be answered with a status
  outside 200-299, and let the error body be the body parsed as JSON, or
  \<^verbatim>\<open>{ error: "unknown" }\<close> where it does not parse.  When the error body is not \<^verbatim>\<open>null\<close>,
  let \<open>code\<close> and \<open>message\<close> be its \<^verbatim>\<open>error\<close> and \<^verbatim>\<open>message\<close> members.  At status 400 the
  codes \<^verbatim>\<open>unread-limit\<close>, \<^verbatim>\<open>limit-reached\<close>, \<^verbatim>\<open>already-read\<close> and \<^verbatim>\<open>invalid-content\<close> each give
  their own message, and the four messages are pairwise different.  Any other code at
  400, and any other status, gives the generic text: the status followed by the text of
  \<^verbatim>\<open>message || error || "..."\<close>, or the exception text when that value cannot be printed.
  When the error body is \<^verbatim>\<open>null\<close>, reading its member throws and the result is the
  exception text.
\<close>

theorem save_article_error_mapping:
  "truthy (arg args ''url'') \<Longrightarrow>
   fetch (save_article_request env (arg args ''url'') (arg args ''title'')
            (arg args ''markdown'')) = FetchResolved response \<Longrightarrow>
   \<not> resp_ok response \<Longrightarrow>
   (get_prop (save_error_data response) ''error'' = Inr code
    \<and> get_prop (save_error_data response) ''message'' = Inr message \<longrightarrow>
      call_tool env fetch ''save_article'' args
        = (Inr [TextContent
             (if resp_status response = 400 \<and> code = JStr ''unread-limit''
                then txt_unread_limit
              else if resp_status response = 400 \<and> code = JStr ''limit-reached''
                then txt_limit_reached
              else if resp_status response = 400 \<and> code = JStr ''already-read''
                then txt_already_read
              else if resp_status response = 400 \<and> code = JStr ''invalid-content''
                then txt_invalid_content
              else
                (case to_string env (js_or (js_or message code) (JStr txt_save_failed)) of
                   Inr detail \<Rightarrow>
                     txt_error_open @ string_of_nat (resp_status response) @ ''): '' @ detail
                 | Inl e \<Rightarrow> txt_exception @ error_message env e))],
           [save_article_request env (arg args ''url'') (arg args ''title'')
              (arg args ''markdown'')]))
   \<and> (save_error_data response = JNull \<longrightarrow>
      call_tool env fetch ''save_article'' args
        = (Inr [TextContent
             (txt_exception
              @ type_error_message env JNull
                  (if resp_status response = 400 then ''error'' else ''message''))],
           [save_article_request env (arg args ''url'') (arg args ''title'')
              (arg args ''markdown'')]))
   \<and> distinct [txt_unread_limit, txt_limit_reached, txt_already_read, txt_invalid_content]"
  by (simp add: call_tool_def save_article_dispatch perform_resolved
      save_article_response_def save_canonical_error_def save_generic_error_def
      and_then_def error_text_def canonical_errors_distinct Let_def
      split: sum.splits del: distinct.simps)

theorem save_article_error_mapping_witness:
  "call_tool example_env
      (respond (json_response 400 (JObj [(''error'', JStr ''unread-limit'')])))
      ''save_article'' (Some [(''url'', JStr ''https://example.com/a'')])
     = (Inr [TextContent txt_unread_limit],
        [save_article_request example_env (JStr ''https://example.com/a'') JUndefined
           JUndefined])
   \<and> call_tool example_env
      (respond (json_response 400 (JObj [(''error'', JStr ''already-read'')])))
      ''save_article'' (Some [(''url'', JStr ''https://example.com/a'')])
     = (Inr [TextContent txt_already_read],
        [save_article_request example_env (JStr ''https://example.com/a'') JUndefined
           JUndefined])
   \<and> call_tool example_env
      (respond (json_response 400 (JObj [(''error'', JStr ''xyz'')])))
      ''save_article'' (Some [(''url'', JStr ''https://example.com/a'')])
     = (Inr [TextContent (txt_error_open @ ''400): xyz'')],
        [save_article_request example_env (JStr ''https://example.com/a'') JUndefined
           JUndefined])
   \<and> call_tool example_env
      (respond (json_response 500 (JObj [(''error'', JStr ''unread-limit'')])))
      ''save_article'' (Some [(''url'', JStr ''https://example.com/a'')])
     = (Inr [TextContent (txt_error_open @ ''500): unread-limit'')],
        [save_article_request example_env (JStr ''https://example.com/a'') JUndefined
           JUndefined])
   \<and> call_tool example_env
      (respond \<lparr>resp_status = 502, resp_text = Inr ''Bad Gateway'',
                 resp_json = Inl (Rejected ''Unexpected token'')\<rparr>)
      ''save_article'' (Some [(''url'', JStr ''https://example.com/a'')])
     = (Inr [TextContent (txt_error_open @ ''502): unknown'')],
        [save_article_request example_env (JStr ''https://example.com/a'') JUndefined
           JUndefined])
   \<and> call_tool example_env
      (respond (json_response 400 (JObj [(''message'', unprintable)])))
      ''save_article'' (Some [(''url'', JStr ''https://example.com/a'')])
     = (Inr [TextContent (txt_exception @ ''Cannot convert object to primitive value'')],
        [save_article_request example_env (JStr ''https://example.com/a'') JUndefined
           JUndefined])
   \<and> call_tool example_env (respond (json_response 400 JNull))
      ''save_article'' (Some [(''url'', JStr ''https://example.com/a'')])
     = (Inr [TextContent
          (txt_exception @ ''Cannot read properties of null (reading ''
           @ [CHR 0x27] @ ''error'' @ [CHR 0x27] @ '')'')],
        [save_article_request example_env (JStr ''https://example.com/a'') JUndefined
           JUndefined])"
  using
    save_article_error_mapping [where env = example_env
      and args = "Some [(''url'', JStr ''https://example.com/a'')]"
      and fetch = "respond (json_response 400 (JObj [(''error'', JStr ''unread-limit'')]))"
      and response = "json_response 400 (JObj [(''error'', JStr ''unread-limit'')])"
      and code = "JStr ''unread-limit''" and message = JUndefined]
    save_article_error_mapping [where env = example_env
      and args = "Some [(''url'', JStr ''https://example.com/a'')]"
      and fetch = "respond (json_response 400 (JObj [(''error'', JStr ''already-read'')]))"
      and response = "json_response 400 (JObj [(''error'', JStr ''already-read'')])"
      and code = "JStr ''already-read''" and message = JUndefined]
    save_article_error_mapping [where env = example_env
      and args = "Some [(''url'', JStr ''https://example.com/a'')]"
      and fetch = "respond (json_response 400 (JObj [(''error'', JStr ''xyz'')]))"
      and response = "json_response 400 (JObj [(''error'', JStr ''xyz'')])"
      and code = "JStr ''xyz''" and message = JUndefined]
    save_article_error_mapping [where env = example_env
      and args = "Some [(''url'', JStr ''https://example.com/a'')]"
      and fetch = "respond (json_response 500 (JObj [(''error'', JStr ''unread-limit'')]))"
      and response = "json_response 500 (JObj [(''error'', JStr ''unread-limit'')])"
      and code = "JStr ''unread-limit''" and message = JUndefined]
    save_article_error_mapping [where env = example_env
      and args = "Some [(''url'', JStr ''https://example.com/a'')]"
      and fetch = "respond \<lparr>resp_status = 502, resp_text = Inr ''Bad Gateway'',
                 resp_json = Inl (Rejected ''Unexpected token'')\<rparr>"
      and response = "\<lparr>resp_status = 502, resp_text = Inr ''Bad Gateway'',
                 resp_json = Inl (Rejected ''Unexpected token'')\<rparr>"
      and code = "JStr ''unknown''" and message = JUndefined]
    save_article_error_mapping [where env = example_env
      and args = "Some [(''url'', JStr ''https://example.com/a'')]"
      and fetch = "respond (json_response 400 (JObj [(''message'', unprintable)]))"
      and response = "json_response 400 (JObj [(''message'', unprintable)])"
      and code = JUndefined and message = unprintable]
    save_article_error_mapping [where env = example_env
      and args = "Some [(''url'', JStr ''https://example.com/a'')]"
      and fetch = "respond (json_response 400 JNull)"
      and response = "json_response 400 JNull"
      and code = JUndefined and message = JUndefined]
  by (simp add: arg_def respond_def json_response_def resp_ok_def save_error_data_def
      js_or_def string_of_nat.simps digit_def unprintable_def example_env_def
      del: distinct.simps)

text \<open>
  Claim C4 as written promises one of the four messages or the generic text for every
  response outside 200-299.  With the JSON body \<^verbatim>\<open>null\<close>, at status 400 and at status 500,
  the result is the exception text, which does not start as the generic text does.
\<close>

theorem save_article_null_error_body_counterexample:
  "call_tool example_env (respond (json_response 400 JNull))
      ''save_article'' (Some [(''url'', JStr ''https://example.com/a'')])
     = (Inr [TextContent
          (txt_exception @ ''Cannot read properties of null (reading ''
           @ [CHR 0x27] @ ''error'' @ [CHR 0x27] @ '')'')],
        [save_article_request example_env (JStr ''https://example.com/a'') JUndefined
           JUndefined])
   \<and> call_tool example_env (respond (json_response 500 JNull))
      ''save_article'' (Some [(''url'', JStr ''https://example.com/a'')])
     = (Inr [TextContent
          (txt_exception @ ''Cannot read properties of null (reading ''
           @ [CHR 0x27] @ ''message'' @ [CHR 0x27] @ '')'')],
        [save_article_request example_env (JStr ''https://example.com/a'') JUndefined
           JUndefined])
   \<and> take (length txt_error_open) txt_exception \<noteq> txt_error_open"
  by (simp add: call_tool_def save_article_dispatch perform_def respond_def arg_def
      json_response_def save_article_response_def resp_ok_def save_error_data_def
      save_canonical_error_def save_generic_error_def and_then_def example_env_def
      txt_exception_def txt_error_open_def)

subsection \<open>Success of \<^verbatim>\<open>save_article\<close>\<close>

text \<open>
  Claim C5, as the code has it.  Let a \<^verbatim>\<open>save_article\<close> request be answered with a status
  in 200-299 and a JSON body with members \<^verbatim>\<open>restored\<close>, \<^verbatim>\<open>message\<close> and \<^verbatim>\<open>articleId\<close> (an
  absent member reads as \<^verbatim>\<open>undefined\<close>).  When the submitted URL and the \<^verbatim>\<open>articleId\<close> can
  be printed, the text starts with the re-registered message when \<^verbatim>\<open>restored\<close> is truthy,
  whatever \<^verbatim>\<open>message\<close> is; otherwise with the already-saved sentence when \<^verbatim>\<open>message\<close> is
  exactly that sentence; otherwise with the saved message; and in all three cases the
  URL and the \<^verbatim>\<open>articleId\<close> follow.  When the URL or the \<^verbatim>\<open>articleId\<close> cannot be printed
  (an object with a member named \<^verbatim>\<open>toString\<close>), the template of line 560 throws after the
  request has been sent, and the result is the exception text.
\<close>

theorem save_article_success_message:
  "truthy (arg args ''url'') \<Longrightarrow>
   fetch (save_article_request env (arg args ''url'') (arg args ''title'')
            (arg args ''markdown'')) = FetchResolved response \<Longrightarrow>
   resp_ok response \<Longrightarrow>
   resp_json response = Inr data \<Longrightarrow>
   get_prop data ''restored'' = Inr restored \<Longrightarrow>
   get_prop data ''message'' = Inr message \<Longrightarrow>
   get_prop data ''articleId'' = Inr articleId \<Longrightarrow>
   (to_string env (arg args ''url'') = Inr url_text
    \<and> to_string env articleId = Inr id_text \<longrightarrow>
      call_tool env fetch ''save_article'' args
        = (Inr [TextContent
             ((if truthy restored then txt_restored
               else if message = JStr txt_already_saved then txt_already_saved
               else txt_saved)
              @ txt_saved_url @ url_text @ txt_saved_id @ id_text)],
           [save_article_request env (arg args ''url'') (arg args ''title'')
              (arg args ''markdown'')]))
   \<and> (to_string env (arg args ''url'') = Inl e \<longrightarrow>
      call_tool env fetch ''save_article'' args
        = (Inr [TextContent (txt_exception @ error_message env e)],
           [save_article_request env (arg args ''url'') (arg args ''title'')
              (arg args ''markdown'')]))
   \<and> (to_string env (arg args ''url'') = Inr url_text
       \<and> to_string env articleId = Inl e \<longrightarrow>
      call_tool env fetch ''save_article'' args
        = (Inr [TextContent (txt_exception @ error_message env e)],
           [save_article_request env (arg args ''url'') (arg args ''title'')
              (arg args ''markdown'')]))"
  by (simp add: call_tool_def save_article_dispatch perform_resolved
      save_article_response_def save_success_message_def and_then_def prop_string_def)

theorem save_article_success_message_witness:
  "call_tool example_env
      (respond (json_response 200
         (saved_body (JStr txt_already_saved) [(''restored'', JBool True)])))
      ''save_article'' (Some [(''url'', JStr ''https://example.com/a'')])
     = (Inr [TextContent (txt_restored @ txt_saved_url @ ''https://example.com/a''
                          @ txt_saved_id @ ''a1'')],
        [save_article_request example_env (JStr ''https://example.com/a'') JUndefined
           JUndefined])
   \<and> call_tool example_env
      (respond (json_response 200 (saved_body (JStr txt_already_saved) [])))
      ''save_article'' (Some [(''url'', JStr ''https://example.com/a'')])
     = (Inr [TextContent (txt_already_saved @ txt_saved_url @ ''https://example.com/a''
                          @ txt_saved_id @ ''a1'')],
        [save_article_request example_env (JStr ''https://example.com/a'') JUndefined
           JUndefined])
   \<and> call_tool example_env
      (respond (json_response 201
         (saved_body (JStr ''created'') [(''restored'', JBool False)])))
      ''save_article'' (Some [(''url'', JStr ''https://example.com/a'')])
     = (Inr [TextContent (txt_saved @ txt_saved_url @ ''https://example.com/a''
                          @ txt_saved_id @ ''a1'')],
        [save_article_request example_env (JStr ''https://example.com/a'') JUndefined
           JUndefined])
   \<and> call_tool example_env
      (respond (json_response 200 (saved_body (JStr ''created'') [])))
      ''save_article'' (Some [(''url'', unprintable)])
     = (Inr [TextContent (txt_exception @ ''Cannot convert object to primitive value'')],
        [save_article_request example_env unprintable JUndefined JUndefined])"
  using
    save_article_success_message [where env = example_env
      and args = "Some [(''url'', JStr ''https://example.com/a'')]"
      and fetch = "respond (json_response 200
         (saved_body (JStr txt_already_saved) [(''restored'', JBool True)]))"
      and response = "json_response 200
         (saved_body (JStr txt_already_saved) [(''restored'', JBool True)])"
      and data = "saved_body (JStr txt_already_saved) [(''restored'', JBool True)]"
      and restored = "JBool True" and message = "JStr txt_already_saved"
      and articleId = "JStr ''a1''" and url_text = "''https://example.com/a''"
      and id_text = "''a1''"]
    save_article_success_message [where env = example_env
      and args = "Some [(''url'', JStr ''https://example.com/a'')]"
      and fetch = "respond (json_response 200 (saved_body (JStr txt_already_saved) []))"
      and response = "json_response 200 (saved_body (JStr txt_already_saved) [])"
      and data = "saved_body (JStr txt_already_saved) []"
      and restored = JUndefined and message = "JStr txt_already_saved"
      and articleId = "JStr ''a1''" and url_text = "''https://example.com/a''"
      and id_text = "''a1''"]
    save_article_success_message [where env = example_env
      and args = "Some [(''url'', JStr ''https://example.com/a'')]"
      and fetch = "respond (json_response 201
         (saved_body (JStr ''created'') [(''restored'', JBool False)]))"
      and response = "json_response 201
         (saved_body (JStr ''created'') [(''restored'', JBool False)])"
      and data = "saved_body (JStr ''created'') [(''restored'', JBool False)]"
      and restored = "JBool False" and message = "JStr ''created''"
      and articleId = "JStr ''a1''" and url_text = "''https://example.com/a''"
      and id_text = "''a1''"]
    save_article_success_message [where env = example_env
      and args = "Some [(''url'', unprintable)]"
      and fetch = "respond (json_response 200 (saved_body (JStr ''created'') []))"
      and response = "json_response 200 (saved_body (JStr ''created'') [])"
      and data = "saved_body (JStr ''created'') []"
      and restored = JUndefined and message = "JStr ''created''"
      and articleId = "JStr ''a1''" and e = "TypeError unprintable ''toString''"]
  by (simp add: arg_def respond_def json_response_def resp_ok_def txt_already_saved_def
      saved_body_def unprintable_def example_env_def)

text \<open>
  Claim C5 as written promises one of the three messages, followed by the URL and the id,
  for every successful response.  With \<^verbatim>\<open>url = { "toString": 1 }\<close>, which is truthy and is
  sent to the backend, a successful response yields the exception text, which starts
  with none of the three messages.
\<close>

theorem save_article_unprintable_url_counterexample:
  "truthy unprintable
   \<and> resp_ok (json_response 200 (saved_body (JStr ''created'') []))
   \<and> call_tool example_env
      (respond (json_response 200 (saved_body (JStr ''created'') [])))
      ''save_article'' (Some [(''url'', unprintable)])
     = (Inr [TextContent (txt_exception @ ''Cannot convert object to primitive value'')],
        [save_article_request example_env unprintable JUndefined JUndefined])
   \<and> take (length txt_restored) txt_exception \<noteq> txt_restored
   \<and> take (length txt_already_saved) txt_exception \<noteq> txt_already_saved
   \<and> take (length txt_saved) txt_exception \<noteq> txt_saved"
  by (simp add: call_tool_def save_article_dispatch perform_def respond_def arg_def
      json_response_def save_article_response_def resp_ok_def saved_body_def
      save_success_message_def and_then_def example_env_def unprintable_def
      txt_exception_def txt_restored_def txt_already_saved_def txt_saved_def)

subsection \<open>Status 503 of \<^verbatim>\<open>search_articles\<close>\<close>

text \<open>
  Claim C6, as the code has it.  Let a \<^verbatim>\<open>search_articles\<close> call send its request (the query is truthy, the
  limit converts and the query encodes) and let the response have status 503.  The
  source first reads the body text (line 247).  With the body read, when the effective
  mode (\<^verbatim>\<open>mode || "semantic"\<close>) is \<^verbatim>\<open>semantic\<close> the text is the suggestion to try keyword
  search, and when \<^verbatim>\<open>mode\<close> is \<^verbatim>\<open>keyword\<close> it is the generic error text with the status 503
  and the body.  When reading the body fails, the result is the exception text.
\<close>

theorem search_unavailable:
  "truthy (arg args ''query'') \<Longrightarrow>
   search_limit env args = Inr limit \<Longrightarrow>
   encodeURIComponent env (arg args ''query'') = Inr q \<Longrightarrow>
   fetch (search_articles_request env (search_mode args) q limit) = FetchResolved response \<Longrightarrow>
   resp_status response = 503 \<Longrightarrow>
   (resp_text response = Inr body \<and> search_mode args = JStr ''semantic'' \<longrightarrow>
      call_tool env fetch ''search_articles'' args
        = (Inr [TextContent txt_semantic_unavailable],
           [search_articles_request env (search_mode args) q limit]))
   \<and> (resp_text response = Inr body \<and> arg args ''mode'' = JStr ''keyword'' \<longrightarrow>
      call_tool env fetch ''search_articles'' args
        = (Inr [TextContent (txt_error_open @ ''503'' @ ''): '' @ body)],
           [search_articles_request env (search_mode args) q limit]))
   \<and> (resp_text response = Inl e \<longrightarrow>
      call_tool env fetch ''search_articles'' args
        = (Inr [TextContent (txt_exception @ error_message env e)],
           [search_articles_request env (search_mode args) q limit]))"
proof -
  assume "truthy (arg args ''query'')" "search_limit env args = Inr limit"
    "encodeURIComponent env (arg args ''query'') = Inr q"
    "fetch (search_articles_request env (search_mode args) q limit) = FetchResolved response"
  then have d: "dispatch env fetch ''search_articles'' args =
     (search_articles_response env (arg args ''query'') (search_mode args) response,
      [search_articles_request env (search_mode args) q limit])"
    by (simp add: search_articles_dispatch perform_resolved)
  assume st: "resp_status response = 503"
  then have not_ok: "\<not> resp_ok response"
    by (simp add: resp_ok_def)
  have keyword: "search_mode args = JStr ''keyword''" if "arg args ''mode'' = JStr ''keyword''"
    using that by (simp add: search_mode_def js_or_def)
  have status_text: "string_of_nat 503 = ''503''"
    by (simp add: string_of_nat.simps digit_def)
  show ?thesis
    using st not_ok keyword
    by (auto simp add: call_tool_def d search_articles_response_def and_then_def
        error_text_def status_text)
qed

theorem search_unavailable_witness:
  "call_tool example_env
      (respond \<lparr>resp_status = 503, resp_text = Inr ''down'',
                 resp_json = Inl (Rejected ''Unexpected token'')\<rparr>)
      ''search_articles'' (Some [(''query'', JStr ''q'')])
     = (Inr [TextContent txt_semantic_unavailable],
        [search_articles_request example_env (JStr ''semantic'') ''q'' (Fin 10)])
   \<and> call_tool example_env
      (respond \<lparr>resp_status = 503, resp_text = Inr ''down'',
                 resp_json = Inl (Rejected ''Unexpected token'')\<rparr>)
      ''search_articles'' (Some [(''query'', JStr ''q''), (''mode'', JStr ''keyword'')])
     = (Inr [TextContent (txt_error_open @ ''503): down'')],
        [search_articles_request example_env (JStr ''keyword'') ''q'' (Fin 10)])
   \<and> call_tool example_env
      (respond \<lparr>resp_status = 503, resp_text = Inl (Rejected ''terminated''),
                 resp_json = Inl (Rejected ''terminated'')\<rparr>)
      ''search_articles'' (Some [(''query'', JStr ''q'')])
     = (Inr [TextContent (txt_exception @ ''terminated'')],
        [search_articles_request example_env (JStr ''semantic'') ''q'' (Fin 10)])"
  using
    search_unavailable [where env = example_env
      and args = "Some [(''query'', JStr ''q'')]"
      and fetch = "respond \<lparr>resp_status = 503, resp_text = Inr ''down'',
                 resp_json = Inl (Rejected ''Unexpected token'')\<rparr>"
      and response = "\<lparr>resp_status = 503, resp_text = Inr ''down'',
                 resp_json = Inl (Rejected ''Unexpected token'')\<rparr>"
      and q = "''q''" and limit = "Fin 10" and body = "''down''"]
    search_unavailable [where env = example_env
      and args = "Some [(''query'', JStr ''q''), (''mode'', JStr ''keyword'')]"
      and fetch = "respond \<lparr>resp_status = 503, resp_text = Inr ''down'',
                 resp_json = Inl (Rejected ''Unexpected token'')\<rparr>"
      and response = "\<lparr>resp_status = 503, resp_text = Inr ''down'',
                 resp_json = Inl (Rejected ''Unexpected token'')\<rparr>"
      and q = "''q''" and limit = "Fin 10" and body = "''down''"]
    search_unavailable [where env = example_env
      and args = "Some [(''query'', JStr ''q'')]"
      and fetch = "respond \<lparr>resp_status = 503, resp_text = Inl (Rejected ''terminated''),
                 resp_json = Inl (Rejected ''terminated'')\<rparr>"
      and response = "\<lparr>resp_status = 503, resp_text = Inl (Rejected ''terminated''),
                 resp_json = Inl (Rejected ''terminated'')\<rparr>"
      and q = "''q''" and limit = "Fin 10" and e = "Rejected ''terminated''"]
  by (simp add: arg_def respond_def search_mode_def coercion_defs)

text \<open>
  Claim C6 as written promises the fallback suggestion for every response with status 503
  to a semantic search.  When reading the body text of such a response fails, the result
  is the exception text.
\<close>

theorem search_unavailable_unread_body_counterexample:
  "resp_status \<lparr>resp_status = 503, resp_text = Inl (Rejected ''terminated''),
                 resp_json = Inl (Rejected ''terminated'')\<rparr> = 503
   \<and> search_mode (Some [(''query'', JStr ''q'')]) = JStr ''semantic''
   \<and> call_tool example_env
      (respond \<lparr>resp_status = 503, resp_text = Inl (Rejected ''terminated''),
                 resp_json = Inl (Rejected ''terminated'')\<rparr>)
      ''search_articles'' (Some [(''query'', JStr ''q'')])
     = (Inr [TextContent (txt_exception @ ''terminated'')],
        [search_articles_request example_env (JStr ''semantic'') ''q'' (Fin 10)])
   \<and> txt_exception @ ''terminated'' \<noteq> txt_semantic_unavailable"
  by (simp add: call_tool_def search_articles_dispatch perform_def respond_def arg_def
      search_articles_response_def resp_ok_def search_mode_def coercion_defs
      txt_exception_def txt_semantic_unavailable_def)

subsection \<open>Responses to \<^verbatim>\<open>get_article\<close>\<close>

text \<open>
  Claim C7, as the code has it.  Let a \<^verbatim>\<open>get_article\<close> call send its request (the article id is truthy and
  prints as \<open>id_text\<close>) and let it be answered.  With the body text read, at status 404
  the text is the not-found message with that id, and at status 403 it is the
  permission-denied message, which differs from the generic error text; when reading the
  body text of a response outside 200-299 fails, the result is the exception text.  At a
  status in 200-299 with a JSON body whose \<^verbatim>\<open>article\<close> renders and whose \<^verbatim>\<open>events\<close> member is
  absent (or otherwise falsy) or the empty array, nothing is thrown and the text is the
  rendered fields of the article followed by the event-history header line and nothing
  after it.  Every article of the declared shape \<^verbatim>\<open>Article\<close> renders.
\<close>

theorem get_article_cases:
  "truthy (arg args ''article_id'') \<Longrightarrow>
   to_string env (arg args ''article_id'') = Inr id_text \<Longrightarrow>
   fetch (get_article_request env id_text) = FetchResolved response \<Longrightarrow>
   (resp_status response = 404 \<and> resp_text response = Inr body \<longrightarrow>
      call_tool env fetch ''get_article'' args
        = (Inr [TextContent (txt_not_found_open @ id_text @ txt_paren_close)],
           [get_article_request env id_text]))
   \<and> (resp_status response = 403 \<and> resp_text response = Inr body \<longrightarrow>
      call_tool env fetch ''get_article'' args
        = (Inr [TextContent txt_forbidden], [get_article_request env id_text])
      \<and> txt_forbidden \<noteq> error_text 403 body)
   \<and> (\<not> resp_ok response \<and> resp_text response = Inl e \<longrightarrow>
      call_tool env fetch ''get_article'' args
        = (Inr [TextContent (txt_exception @ error_message env e)],
           [get_article_request env id_text]))
   \<and> (resp_ok response \<and> resp_json response = Inr data
       \<and> get_prop data ''article'' = Inr article
       \<and> template (article_fields env article) = Inr rendered
       \<and> get_prop data ''events'' = Inr events
       \<and> (\<not> truthy events \<or> events = JArr []) \<longrightarrow>
      call_tool env fetch ''get_article'' args
        = (Inr [TextContent (rendered @ txt_events_header)],
           [get_article_request env id_text]))
   \<and> (is_Article article \<longrightarrow> (\<exists>rendered'. template (article_fields env article) = Inr rendered'))"
proof (intro conjI impI)
  assume a: "truthy (arg args ''article_id'')"
    and s: "to_string env (arg args ''article_id'') = Inr id_text"
    and f: "fetch (get_article_request env id_text) = FetchResolved response"
  have d: "dispatch env fetch ''get_article'' args =
     (get_article_response env (arg args ''article_id'') response,
      [get_article_request env id_text])"
    using a s f by (simp add: get_article_dispatch perform_resolved)
  {
    assume "resp_status response = 404 \<and> resp_text response = Inr body"
    then show "call_tool env fetch ''get_article'' args
        = (Inr [TextContent (txt_not_found_open @ id_text @ txt_paren_close)],
           [get_article_request env id_text])"
      using s by (simp add: call_tool_def d get_article_response_def resp_ok_def and_then_def)
  }
  {
    assume "resp_status response = 403 \<and> resp_text response = Inr body"
    then show "call_tool env fetch ''get_article'' args
        = (Inr [TextContent txt_forbidden], [get_article_request env id_text])"
      by (simp add: call_tool_def d get_article_response_def resp_ok_def and_then_def)
  }
  show "txt_forbidden \<noteq> error_text 403 body"
    by (rule forbidden_not_generic)
  {
    assume "\<not> resp_ok response \<and> resp_text response = Inl e"
    then show "call_tool env fetch ''get_article'' args
        = (Inr [TextContent (txt_exception @ error_message env e)],
           [get_article_request env id_text])"
      by (simp add: call_tool_def d get_article_response_def and_then_def)
  }
  {
    assume h: "resp_ok response \<and> resp_json response = Inr data
       \<and> get_prop data ''article'' = Inr article
       \<and> template (article_fields env article) = Inr rendered
       \<and> get_prop data ''events'' = Inr events
       \<and> (\<not> truthy events \<or> events = JArr [])"
    then have fs: "template (article_fields env article) = Inr rendered" by simp
    from h have ev: "js_or events (JArr []) = JArr []"
      by (auto simp: js_or_def)
    have "get_article_response env (arg args ''article_id'') response
            = Inr (rendered @ txt_events_header)"
      using h template_Inr_append [OF fs, of txt_events_header "[]"]
      by (simp add: get_article_response_def and_then_def ev events_text_empty)
    then show "call_tool env fetch ''get_article'' args
             = (Inr [TextContent (rendered @ txt_events_header)],
                [get_article_request env id_text])"
      by (simp add: call_tool_def d)
  }
  {
    assume "is_Article article"
    then show "\<exists>rendered'. template (article_fields env article) = Inr rendered'"
      by (rule article_fields_render)
  }
qed

theorem get_article_cases_witness:
  "call_tool example_env (respond (json_response 404 JNull)) ''get_article''
      (Some [(''article_id'', JStr ''a1'')])
     = (Inr [TextContent (txt_not_found_open @ ''a1'' @ txt_paren_close)],
        [get_article_request example_env ''a1''])
   \<and> call_tool example_env (respond (json_response 403 JNull)) ''get_article''
      (Some [(''article_id'', JStr ''a1'')])
     = (Inr [TextContent txt_forbidden], [get_article_request example_env ''a1''])
   \<and> is_Article example_article
   \<and> call_tool example_env
      (respond (json_response 200 (JObj [(''article'', example_article)])))
      ''get_article'' (Some [(''article_id'', JStr ''a1'')])
     = (Inr [TextContent
          (''# Title'' @ txt_url_field @ ''https://example.com/a''
           @ txt_status_field @ txt_status_unread
           @ txt_reading_time_field @ ''5''
           @ txt_tags_field @ ''ts, mcp''
           @ txt_content_type_field @ ''article''
           @ txt_saved_date_field @ txt_unknown
           @ txt_summary_field @ ''Summary''
           @ txt_article_id_field @ ''a1''
           @ txt_events_header)],
        [get_article_request example_env ''a1''])
   \<and> call_tool example_env
      (respond (json_response 200
         (JObj [(''article'', example_article), (''events'', JArr [])])))
      ''get_article'' (Some [(''article_id'', JStr ''a1'')])
     = (Inr [TextContent
          (''# Title'' @ txt_url_field @ ''https://example.com/a''
           @ txt_status_field @ txt_status_unread
           @ txt_reading_time_field @ ''5''
           @ txt_tags_field @ ''ts, mcp''
           @ txt_content_type_field @ ''article''
           @ txt_saved_date_field @ txt_unknown
           @ txt_summary_field @ ''Summary''
           @ txt_article_id_field @ ''a1''
           @ txt_events_header)],
        [get_article_request example_env ''a1''])"
  using
    get_article_cases [where env = example_env
      and args = "Some [(''article_id'', JStr ''a1'')]" and id_text = "''a1''"
      and fetch = "respond (json_response 404 JNull)"
      and response = "json_response 404 JNull" and body = "''body''"
      and article = example_article]
    get_article_cases [where env = example_env
      and args = "Some [(''article_id'', JStr ''a1'')]" and id_text = "''a1''"
      and fetch = "respond (json_response 403 JNull)"
      and response = "json_response 403 JNull" and body = "''body''"
      and article = example_article]
    get_article_cases [where env = example_env
      and args = "Some [(''article_id'', JStr ''a1'')]" and id_text = "''a1''"
      and fetch = "respond (json_response 200 (JObj [(''article'', example_article)]))"
      and response = "json_response 200 (JObj [(''article'', example_article)])"
      and data = "JObj [(''article'', example_article)]"
      and article = example_article
      and events = JUndefined
      and rendered = "''# Title'' @ txt_url_field @ ''https://example.com/a''
           @ txt_status_field @ txt_status_unread
           @ txt_reading_time_field @ ''5''
           @ txt_tags_field @ ''ts, mcp''
           @ txt_content_type_field @ ''article''
           @ txt_saved_date_field @ txt_unknown
           @ txt_summary_field @ ''Summary''
           @ txt_article_id_field @ ''a1''"]
    get_article_cases [where env = example_env
      and args = "Some [(''article_id'', JStr ''a1'')]" and id_text = "''a1''"
      and fetch = "respond (json_response 200
         (JObj [(''article'', example_article), (''events'', JArr [])]))"
      and response = "json_response 200
         (JObj [(''article'', example_article), (''events'', JArr [])])"
      and data = "JObj [(''article'', example_article), (''events'', JArr [])]"
      and article = example_article
      and events = "JArr []"
      and rendered = "''# Title'' @ txt_url_field @ ''https://example.com/a''
           @ txt_status_field @ txt_status_unread
           @ txt_reading_time_field @ ''5''
           @ txt_tags_field @ ''ts, mcp''
           @ txt_content_type_field @ ''article''
           @ txt_saved_date_field @ txt_unknown
           @ txt_summary_field @ ''Summary''
           @ txt_article_id_field @ ''a1''"]
  by (simp add: arg_def respond_def json_response_def resp_ok_def example_article_def
      article_fields_def prop_string_def and_then_def status_label_def member_def
      number_to_string_def string_of_nat.simps digit_def)

text \<open>
  Claim C7 as written promises the not-found message for every response with status 404.
  When reading the body text of such a response fails, the result is the exception text.
\<close>

theorem get_article_unread_body_counterexample:
  "resp_status \<lparr>resp_status = 404, resp_text = Inl (Rejected ''terminated''),
                 resp_json = Inl (Rejected ''terminated'')\<rparr> = 404
   \<and> call_tool example_env
      (respond \<lparr>resp_status = 404, resp_text = Inl (Rejected ''terminated''),
                 resp_json = Inl (Rejected ''terminated'')\<rparr>)
      ''get_article'' (Some [(''article_id'', JStr ''a1'')])
     = (Inr [TextContent (txt_exception @ ''terminated'')],
        [get_article_request example_env ''a1''])
   \<and> txt_exception @ ''terminated'' \<noteq> txt_not_found_open @ ''a1'' @ txt_paren_close"
  by (simp add: call_tool_def get_article_dispatch perform_def respond_def arg_def
      get_article_response_def resp_ok_def and_then_def txt_exception_def
      txt_not_found_open_def)

subsection \<open>Determinism of \<^verbatim>\<open>get_article\<close>\<close>

text \<open>
  Claim C8.  The text that \<^verbatim>\<open>get_article\<close> returns depends on nothing but the
  \<^verbatim>\<open>article_id\<close>, the status and body of the response, and the built-ins of the engine
  (the locale-dependent date renderings among them).  Two calls with the same
  \<^verbatim>\<open>article_id\<close>, on the same engine, whose requests are answered with the same status and
  the same body, return the same text: whatever the API URL and the token of the two
  processes, whatever else the two argument bags hold, and however the two backends
  answer other requests.
\<close>

theorem get_article_deterministic:
  assumes id: "arg args1 ''article_id'' = arg args2 ''article_id''"
    and engine: "print_number env1 = print_number env2"
      "to_locale_date_string env1 = to_locale_date_string env2"
      "to_locale_string env1 = to_locale_string env2"
      "type_error_message env1 = type_error_message env2"
      "uri_error_message env1 = uri_error_message env2"
    and answered1: "\<forall>id_text. to_string env1 (arg args1 ''article_id'') = Inr id_text \<longrightarrow>
      fetch1 (get_article_request env1 id_text) = FetchResolved r1"
    and answered2: "\<forall>id_text. to_string env2 (arg args2 ''article_id'') = Inr id_text \<longrightarrow>
      fetch2 (get_article_request env2 id_text) = FetchResolved r2"
    and same: "resp_status r1 = resp_status r2" "resp_text r1 = resp_text r2"
      "resp_json r1 = resp_json r2"
  shows "fst (call_tool env1 fetch1 ''get_article'' args1)
           = fst (call_tool env2 fetch2 ''get_article'' args2)"
proof -
  from same have r: "r1 = r2" by simp
  have ts: "to_string env1 (arg args1 ''article_id'') = to_string env2 (arg args2 ''article_id'')"
    using id by (simp add: to_string_env [OF engine(1)])
  have msg: "error_message env1 e = error_message env2 e" for e
    using engine(4,5) by (rule error_message_env)
  have interp: "get_article_response env1 (arg args1 ''article_id'') r1
      = get_article_response env2 (arg args2 ''article_id'') r2"
    using id r by (simp add: get_article_response_env [OF engine(1,2,3)])
  show ?thesis
  proof (cases "truthy (arg args1 ''article_id'')")
    case False
    then show ?thesis
      using id by (simp add: call_tool_text get_article_dispatch)
  next
    case True
    then have t2: "truthy (arg args2 ''article_id'')" using id by simp
    show ?thesis
    proof (cases "to_string env1 (arg args1 ''article_id'')")
      case (Inl e)
      then show ?thesis
        using True t2 ts msg by (simp add: call_tool_text get_article_dispatch)
    next
      case (Inr id_text)
      then have s1: "to_string env1 (arg args1 ''article_id'') = Inr id_text"
        and s2: "to_string env2 (arg args2 ''article_id'') = Inr id_text"
        using ts by simp_all
      have "fetch1 (get_article_request env1 id_text) = FetchResolved r1"
        using answered1 s1 by simp
      then have d1: "fst (dispatch env1 fetch1 ''get_article'' args1)
          = get_article_response env1 (arg args1 ''article_id'') r1"
        using True s1 by (simp add: get_article_dispatch perform_resolved)
      have "fetch2 (get_article_request env2 id_text) = FetchResolved r2"
        using answered2 s2 by simp
      then have d2: "fst (dispatch env2 fetch2 ''get_article'' args2)
          = get_article_response env2 (arg args2 ''article_id'') r2"
        using t2 s2 by (simp add: get_article_dispatch perform_resolved)
      show ?thesis
        by (simp add: call_tool_text d1 d2 interp msg cong: sum.case_cong)
    qed
  qed
qed

theorem get_article_deterministic_witness:
  "fst (call_tool example_env
      (respond (json_response 200 (JObj [(''article'', example_article)])))
      ''get_article'' (Some [(''article_id'', JStr ''a1'')]))
   = fst (call_tool other_env
      (respond_at ''http://localhost:3000/api/v1/articles/a1''
         (json_response 200 (JObj [(''article'', example_article)])))
      ''get_article'' (Some [(''article_id'', JStr ''a1''), (''verbose'', JBool True)]))"
  using
    get_article_deterministic [where ?env1.0 = example_env and ?env2.0 = other_env
      and ?args1.0 = "Some [(''article_id'', JStr ''a1'')]"
      and ?args2.0 = "Some [(''article_id'', JStr ''a1''), (''verbose'', JBool True)]"
      and ?fetch1.0 = "respond (json_response 200 (JObj [(''article'', example_article)]))"
      and ?fetch2.0 = "respond_at ''http://localhost:3000/api/v1/articles/a1''
         (json_response 200 (JObj [(''article'', example_article)]))"
      and ?r1.0 = "json_response 200 (JObj [(''article'', example_article)])"
      and ?r2.0 = "json_response 200 (JObj [(''article'', example_article)])"]
  by (simp add: arg_def respond_def respond_at_def get_article_request_def other_env_def
      example_env_def)

subsection \<open>Unknown tools\<close>

text \<open>
  Claim C9.  For a tool name that is none of the five names of \<^verbatim>\<open>TOOLS\<close>, the handler
  returns the single text block made of the unknown-tool prefix and the name, sends no
  request, and raises no protocol error.
\<close>

theorem unknown_tool:
  "name \<notin> set TOOL_NAMES \<Longrightarrow>
   call_tool env fetch name args = (Inr [TextContent (txt_unknown_tool @ name)], [])"
proof -
  assume "name \<notin> set TOOL_NAMES"
  then have "dispatch env fetch name args = (Inr (txt_unknown_tool @ name), [])"
    by (simp add: dispatch_def TOOL_NAMES_def)
  then show ?thesis
    by (simp add: call_tool_def)
qed

theorem unknown_tool_witness:
  "''drop_articles'' \<notin> set TOOL_NAMES
   \<and> call_tool example_env (respond (json_response 200 JNull)) ''drop_articles'' None
       = (Inr [TextContent (txt_unknown_tool @ ''drop_articles'')], [])"
  using unknown_tool [where name = "''drop_articles''" and env = example_env
      and fetch = "respond (json_response 200 JNull)" and args = None]
  by (simp add: TOOL_NAMES_def)

subsection \<open>Request body of \<^verbatim>\<open>save_article\<close>\<close>

text \<open>
  Claim C10.  A falsy \<^verbatim>\<open>title\<close> (the empty string in particular) is not a key of the object
  that \<^verbatim>\<open>save_article\<close> serialises, and the request is the one built when \<^verbatim>\<open>title\<close> is
  omitted; likewise for \<^verbatim>\<open>markdown\<close>.  The request sent is built from the three arguments,
  and its body is \<^verbatim>\<open>JSON.stringify\<close> of that object.
\<close>

theorem save_article_omits_empty:
  "(\<not> truthy title \<longrightarrow>
      ''title'' \<notin> fst ` set (save_request_body url title markdown)
      \<and> save_article_request env url title markdown
          = save_article_request env url JUndefined markdown)
   \<and> (\<not> truthy markdown \<longrightarrow>
      ''markdown'' \<notin> fst ` set (save_request_body url title markdown)
      \<and> save_article_request env url title markdown
          = save_article_request env url title JUndefined)
   \<and> (truthy (arg args ''url'') \<longrightarrow>
      snd (call_tool env fetch ''save_article'' args)
        = [save_article_request env (arg args ''url'') (arg args ''title'')
             (arg args ''markdown'')])
   \<and> req_body (save_article_request env url title markdown)
       = Some (json_stringify env (JObj (save_request_body url title markdown)))"
proof (intro conjI impI)
  assume "\<not> truthy title"
  then have body: "save_request_body url title markdown = save_request_body url JUndefined markdown"
    by (simp add: save_request_body_def)
  show "''title'' \<notin> fst ` set (save_request_body url title markdown)"
    unfolding body by (auto simp add: save_request_body_def)
  show "save_article_request env url title markdown
          = save_article_request env url JUndefined markdown"
    by (simp add: save_article_request_def body)
next
  assume "\<not> truthy markdown"
  then have body: "save_request_body url title markdown = save_request_body url title JUndefined"
    by (simp add: save_request_body_def)
  show "''markdown'' \<notin> fst ` set (save_request_body url title markdown)"
    unfolding body by (auto simp add: save_request_body_def)
  show "save_article_request env url title markdown
          = save_article_request env url title JUndefined"
    by (simp add: save_article_request_def body)
next
  assume "truthy (arg args ''url'')"
  then show "snd (call_tool env fetch ''save_article'' args)
        = [save_article_request env (arg args ''url'') (arg args ''title'')
             (arg args ''markdown'')]"
    by (rule save_article_sent)
next
  show "req_body (save_article_request env url title markdown)
       = Some (json_stringify env (JObj (save_request_body url title markdown)))"
    by (simp add: save_article_request_def)
qed

theorem save_article_omits_empty_witness:
  "save_request_body (JStr ''https://example.com/a'') (JStr []) (JStr [])
     = [(''url'', JStr ''https://example.com/a'')]
   \<and> snd (call_tool example_env (respond (json_response 200 JNull)) ''save_article''
           (Some [(''url'', JStr ''https://example.com/a''), (''title'', JStr []),
                  (''markdown'', JStr [])]))
     = snd (call_tool example_env (respond (json_response 200 JNull)) ''save_article''
           (Some [(''url'', JStr ''https://example.com/a'')]))
   \<and> snd (call_tool example_env (respond (json_response 200 JNull)) ''save_article''
           (Some [(''url'', JStr ''https://example.com/a''), (''title'', JStr ''T'')]))
     = [save_article_request example_env (JStr ''https://example.com/a'') (JStr ''T'')
          JUndefined]"
  using
    save_article_omits_empty [where env = example_env
      and url = "JStr ''https://example.com/a''" and title = "JStr []"
      and markdown = "JStr []"
      and fetch = "respond (json_response 200 JNull)"
      and args = "Some [(''url'', JStr ''https://example.com/a''), (''title'', JStr []),
                  (''markdown'', JStr [])]"]
    save_article_omits_empty [where env = example_env
      and url = "JStr ''https://example.com/a''" and title = JUndefined
      and markdown = "JStr []"
      and fetch = "respond (json_response 200 JNull)"
      and args = "Some [(''url'', JStr ''https://example.com/a'')]"]
    save_article_omits_empty [where env = example_env
      and url = "JStr ''https://example.com/a''" and title = "JStr ''T''"
      and markdown = JUndefined
      and fetch = "respond (json_response 200 JNull)"
      and args = "Some [(''url'', JStr ''https://example.com/a''), (''title'', JStr ''T'')]"]
  by (simp add: arg_def save_request_body_def)

end
